theory Spec2Isabelle
  imports Main "HOL-Library.Word"
begin

section \<open>Identity TLS (crypto.go)\<close>

subsection \<open>Data\<close>

text \<open>
  Errors are values. The five messages the package itself creates with
  \<^verbatim>\<open>errors.New\<close> / \<^verbatim>\<open>fmt.Errorf\<close> each have a constructor; an error
  handed back by a library call is passed on verbatim as \<open>LibError\<close>.
\<close>

datatype error =
    ExpectedTwoCertificates
  | UnknownKeyType
  | UnsupportedKeyTypeForTLS
  | PeerIDsDontMatch
  | InvalidNetwork
  | LibError string

type_synonym bytes = "8 word list"

text \<open>\<^verbatim>\<open>pb.KeyType\<close> of go-libp2p-core.\<close>

datatype KeyType = RSA | Ed25519 | Secp256k1 | ECDSA

record pb_PrivateKey =
  Type :: KeyType
  Data :: bytes

text \<open>
  \<^verbatim>\<open>ic.PrivKey\<close> is an interface; the code only calls \<^verbatim>\<open>Bytes()\<close> on it, which
  returns the protobuf envelope or an error.
\<close>

record PrivKey =
  Bytes :: "error + bytes"

text \<open>\<^verbatim>\<open>ic.PubKey\<close>: a key kind and its bytes.\<close>

datatype PubKey = PubKey KeyType bytes

datatype curve = P224 | P256 | P384 | P521

text \<open>
  What \<^verbatim>\<open>Certificate.PublicKey\<close> (an \<^verbatim>\<open>interface{}\<close>) can hold after
  \<^verbatim>\<open>x509.ParseCertificate\<close>: one of the four key types of crypto/x509, or nil.
\<close>

datatype x509_PublicKey =
    RsaPublicKey nat nat
  | DsaPublicKey nat
  | EcdsaPublicKey curve nat
  | Ed25519PublicKey bytes
  | NilKey

text \<open>An ECDSA key pair: the curve, the public point \<open>Q\<close> and the secret scalar \<open>D\<close>.\<close>

record ecdsa_PrivateKey =
  Curve :: curve
  Q :: nat
  D :: nat

text \<open>The \<^verbatim>\<open>crypto.Signer\<close> values built by \<^verbatim>\<open>keyToCertificate\<close>.\<close>

datatype signer =
    RsaSigner nat nat nat
  | Ed25519Signer bytes

text \<open>
  The fields of \<^verbatim>\<open>x509.Certificate\<close> that the package sets or reads. Times are
  Unix seconds, the resolution at which a certificate stores them. \<open>SignatureKey\<close>
  stands for \<^verbatim>\<open>Signature\<close>: the public half of the key that produced it.
\<close>

record Certificate =
  SerialNumber :: int
  DNSNames :: "string list"
  EmailAddresses :: "string list"
  IPAddresses :: "bytes list"
  URIs :: "string list"
  NotBefore :: int
  NotAfter :: int
  IsCA :: bool
  BasicConstraintsValid :: bool
  PublicKey :: x509_PublicKey
  SignatureKey :: "x509_PublicKey option"

text \<open>The zero value of the struct, which a Go composite literal starts from.\<close>

definition Certificate_zero :: Certificate where
  "Certificate_zero =
     \<lparr> SerialNumber = 0, DNSNames = [], EmailAddresses = [], IPAddresses = [], URIs = [],
       NotBefore = 0, NotAfter = 0, IsCA = False, BasicConstraintsValid = False,
       PublicKey = NilKey, SignatureKey = None \<rparr>"

text \<open>
  DER bytes. The encoding is faithful: parsing what \<^verbatim>\<open>CreateCertificate\<close> wrote
  gives the certificate back; any other byte string does not parse.
\<close>

datatype der = Encoded Certificate | Malformed bytes

definition Raw :: "Certificate \<Rightarrow> der" where
  "Raw c = Encoded c"

fun x509_ParseCertificate :: "der \<Rightarrow> error + Certificate" where
  "x509_ParseCertificate (Encoded c) = Inr c"
| "x509_ParseCertificate (Malformed b) = Inl (LibError ''x509: malformed certificate'')"

datatype ClientAuthType =
    NoClientCert
  | RequestClientCert
  | RequireAnyClientCert
  | VerifyClientCertIfGiven
  | RequireAndVerifyClientCert

record tls_Certificate =
  Certificate_chain :: "der list"
  PrivateKey :: ecdsa_PrivateKey

text \<open>
  \<^verbatim>\<open>tls.Config\<close>. The callback \<^verbatim>\<open>VerifyPeerCertificate\<close> is a closure over one
  variable: it takes that variable's current value and the raw certificates, and
  returns its error (or none) together with the value it leaves in the variable.
\<close>

record tls_Config =
  ServerName :: string
  InsecureSkipVerify :: bool
  ClientAuth :: ClientAuthType
  Certificates :: "tls_Certificate list"
  VerifyPeerCertificate :: "(PubKey option \<Rightarrow> der list \<Rightarrow> error option \<times> PubKey option) option"

text \<open>\<^verbatim>\<open>peer.ID\<close> and \<^verbatim>\<open>ma.Multiaddr\<close> are strings; \<^verbatim>\<open>net.UDPAddr\<close> is an IP and a port.\<close>

type_synonym peer_ID = string

type_synonym Multiaddr = string

record UDPAddr =
  IP :: bytes
  Port :: nat

subsection \<open>The libraries\<close>

text \<open>
  The behaviour of the library calls whose result the package cannot determine: the
  random source, the parsers and marshallers of the key formats, signing, chain
  verification, the peer-identity functions, address parsing and the socket bind. Each
  is a parameter. \<open>fromQuicMultiaddr\<close> and \<open>toQuicMultiaddr\<close> are the package's own
  address conversions, whose file is not part of the sources at hand; they are
  parameters too.
\<close>

record env =
  rand_Int :: "int \<Rightarrow> error + int"
  proto_Unmarshal :: "bytes \<Rightarrow> error + pb_PrivateKey"
  x509_ParsePKCS1PrivateKey :: "bytes \<Rightarrow> error + (nat \<times> nat \<times> nat)"
  ed25519_Public :: "bytes \<Rightarrow> bytes"
  ecdsa_GenerateKey :: "curve \<Rightarrow> error + (nat \<times> nat)"
  sign_error :: "Certificate \<Rightarrow> signer \<Rightarrow> error option"
  x509_Verify :: "Certificate \<Rightarrow> Certificate list \<Rightarrow> error option"
  x509_MarshalPKIXPublicKey :: "x509_PublicKey \<Rightarrow> error + bytes"
  UnmarshalRsaPublicKey :: "bytes \<Rightarrow> error + PubKey"
  UnmarshalEd25519PublicKey :: "bytes \<Rightarrow> error + PubKey"
  IDFromPrivateKey :: "PrivKey \<Rightarrow> error + peer_ID"
  MatchesPublicKey :: "peer_ID \<Rightarrow> PubKey \<Rightarrow> bool"
  manet_DialArgs :: "Multiaddr \<Rightarrow> error + (string \<times> string)"
  net_ResolveUDPAddr :: "string \<Rightarrow> string \<Rightarrow> error + UDPAddr"
  net_ListenUDP :: "string \<Rightarrow> UDPAddr \<Rightarrow> error + UDPAddr"
  fromQuicMultiaddr :: "Multiaddr \<Rightarrow> error + UDPAddr"
  toQuicMultiaddr :: "UDPAddr \<Rightarrow> error + Multiaddr"

text \<open>
  The wall clock: \<open>clock w n\<close> is what the \<open>n\<close>-th call of \<^verbatim>\<open>time.Now()\<close> reads, in
  Unix seconds, and \<open>ticks w\<close> counts the calls made so far.
\<close>

record world =
  clock :: "nat \<Rightarrow> int"
  ticks :: nat

definition time_Now :: "world \<Rightarrow> int \<times> world" where
  "time_Now w = (clock w (ticks w), w\<lparr>ticks := Suc (ticks w)\<rparr>)"

definition Hour :: int where
  "Hour = 3600"

definition hostname :: string where
  "hostname = ''quic.ipfs''"

definition certValidityPeriod :: int where
  "certValidityPeriod = 180 * 24 * Hour"

text \<open>\<^verbatim>\<open>Public()\<close> of a \<^verbatim>\<open>crypto.Signer\<close> and of the ephemeral key.\<close>

fun signer_Public :: "env \<Rightarrow> signer \<Rightarrow> x509_PublicKey" where
  "signer_Public E (RsaSigner n e d) = RsaPublicKey n e"
| "signer_Public E (Ed25519Signer k) = Ed25519PublicKey (ed25519_Public E k)"

definition ecdsa_Public :: "ecdsa_PrivateKey \<Rightarrow> x509_PublicKey" where
  "ecdsa_Public k = EcdsaPublicKey (Curve k) (Q k)"

text \<open>
  \<^verbatim>\<open>ecdsa.GenerateKey(c, rand.Reader)\<close>: the random source decides the scalar and
  its point; the key is on the curve that was asked for.
\<close>

definition ecdsa_GenerateKey_on :: "env \<Rightarrow> curve \<Rightarrow> error + ecdsa_PrivateKey" where
  "ecdsa_GenerateKey_on E c =
     (case ecdsa_GenerateKey E c of
        Inl err \<Rightarrow> Inl err
      | Inr (d, q) \<Rightarrow> Inr \<lparr> Curve = c, Q = q, D = d \<rparr>)"

text \<open>
  \<^verbatim>\<open>x509.CreateCertificate(rand, template, parent, pub, priv)\<close>: the certificate has
  the template's fields, carries \<open>pub\<close> and is signed with \<open>priv\<close>; signing may fail.
\<close>

definition x509_CreateCertificate ::
  "env \<Rightarrow> Certificate \<Rightarrow> Certificate \<Rightarrow> x509_PublicKey \<Rightarrow> signer \<Rightarrow> error + der" where
  "x509_CreateCertificate E template parent pub priv =
     (case sign_error E template priv of
        Some err \<Rightarrow> Inl err
      | None \<Rightarrow> Inr (Raw (template\<lparr> PublicKey := pub,
                                     SignatureKey := Some (signer_Public E priv) \<rparr>)))"

subsection \<open>keyToCertificate\<close>

text \<open>The \<^verbatim>\<open>switch pbmes.GetType()\<close> of \<^verbatim>\<open>keyToCertificate\<close>: public key and signer.\<close>

definition keyToCertificate_switch ::
  "env \<Rightarrow> pb_PrivateKey \<Rightarrow> error + (x509_PublicKey \<times> signer)" where
  "keyToCertificate_switch E pbmes =
     (case Type pbmes of
        RSA \<Rightarrow>
          (case x509_ParsePKCS1PrivateKey E (Data pbmes) of
             Inl err \<Rightarrow> Inl err
           | Inr (n, e, d) \<Rightarrow> Inr (RsaPublicKey n e, RsaSigner n e d))
      | Ed25519 \<Rightarrow>
          (let privateKey = Ed25519Signer (Data pbmes)
           in Inr (signer_Public E privateKey, privateKey))
      | _ \<Rightarrow> Inl UnsupportedKeyTypeForTLS)"

definition keyToCertificate ::
  "env \<Rightarrow> PrivKey \<Rightarrow> world \<Rightarrow> (error + (signer \<times> Certificate)) \<times> world" where
  "keyToCertificate E sk w =
     (case rand_Int E (2 ^ 62) of
        Inl err \<Rightarrow> (Inl err, w)
      | Inr sn \<Rightarrow>
          (let (t1, w1) = time_Now w;
               (t2, w2) = time_Now w1;
               tmpl = Certificate_zero\<lparr> SerialNumber := sn,
                                         NotBefore := t1 - 24 * Hour,
                                         NotAfter := t2 + certValidityPeriod,
                                         IsCA := True,
                                         BasicConstraintsValid := True \<rparr>
           in case Bytes sk of
                Inl err \<Rightarrow> (Inl err, w2)
              | Inr keyBytes \<Rightarrow>
                  (case proto_Unmarshal E keyBytes of
                     Inl err \<Rightarrow> (Inl err, w2)
                   | Inr pbmes \<Rightarrow>
                       (case keyToCertificate_switch E pbmes of
                          Inl err \<Rightarrow> (Inl err, w2)
                        | Inr (publicKey, privateKey) \<Rightarrow>
                            (case x509_CreateCertificate E tmpl tmpl publicKey privateKey of
                               Inl err \<Rightarrow> (Inl err, w2)
                             | Inr certDER \<Rightarrow>
                                 (case x509_ParseCertificate certDER of
                                    Inl err \<Rightarrow> (Inl err, w2)
                                  | Inr cert \<Rightarrow> (Inr (privateKey, cert), w2)))))))"

subsection \<open>generateConfig\<close>

definition generateConfig :: "env \<Rightarrow> PrivKey \<Rightarrow> world \<Rightarrow> (error + tls_Config) \<times> world" where
  "generateConfig E privKey w =
     (case keyToCertificate E privKey w of
        (Inl err, w1) \<Rightarrow> (Inl err, w1)
      | (Inr (key, hostCert), w1) \<Rightarrow>
          (case ecdsa_GenerateKey_on E P256 of
             Inl err \<Rightarrow> (Inl err, w1)
           | Inr ephemeralKey \<Rightarrow>
               (let (t3, w2) = time_Now w1;
                    (t4, w3) = time_Now w2;
                    certTemplate = Certificate_zero\<lparr> DNSNames := [hostname],
                                                      SerialNumber := 1,
                                                      NotBefore := t3 - 24 * Hour,
                                                      NotAfter := t4 + certValidityPeriod \<rparr>
                in case x509_CreateCertificate E certTemplate hostCert
                          (ecdsa_Public ephemeralKey) key of
                     Inl err \<Rightarrow> (Inl err, w3)
                   | Inr certDER \<Rightarrow>
                       (case x509_ParseCertificate certDER of
                          Inl err \<Rightarrow> (Inl err, w3)
                        | Inr cert \<Rightarrow>
                            (Inr \<lparr> ServerName = hostname,
                                   InsecureSkipVerify = True,
                                   ClientAuth = RequireAnyClientCert,
                                   Certificates =
                                     [\<lparr> Certificate_chain = [Raw cert, Raw hostCert],
                                        PrivateKey = ephemeralKey \<rparr>],
                                   VerifyPeerCertificate = None \<rparr>, w3)))))"

subsection \<open>getRemotePubKey\<close>

definition getRemotePubKey :: "env \<Rightarrow> Certificate list \<Rightarrow> error + PubKey" where
  "getRemotePubKey E chain =
     (if length chain \<noteq> 2 then Inl ExpectedTwoCertificates
      else
        (case x509_Verify E (chain ! 0) [chain ! 1] of
           Some err \<Rightarrow> Inl err
         | None \<Rightarrow>
             (case PublicKey (chain ! 1) of
                RsaPublicKey n e \<Rightarrow>
                  (case x509_MarshalPKIXPublicKey E (RsaPublicKey n e) of
                     Inl err \<Rightarrow> Inl err
                   | Inr remotePubKeyPKIX \<Rightarrow> UnmarshalRsaPublicKey E remotePubKeyPKIX)
              | Ed25519PublicKey k \<Rightarrow> UnmarshalEd25519PublicKey E k
              | _ \<Rightarrow> Inl UnknownKeyType)))"

section \<open>Socket reuse\<close>

text \<open>
  Modelled from the spec: the reuse layer (\<^verbatim>\<open>reuse\<close>, \<^verbatim>\<open>reuseConn\<close>, \<^verbatim>\<open>newReuse\<close>,
  \<^verbatim>\<open>reuse.Listen\<close>, \<^verbatim>\<open>reuse.Dial\<close>, \<^verbatim>\<open>DecreaseCount\<close>, \<^verbatim>\<open>GetCount\<close>) is
  missing from the sources; the definitions of this section follow sections 3 and 4.2
  of the specification. A \<^verbatim>\<open>*reuseConn\<close> is a reference into \<open>conns\<close>; a registry
  lists its global and its ephemeral connections.
\<close>

type_synonym ref = nat

record reuseConn =
  LocalAddr :: UDPAddr
  refCount :: int
  closed :: bool

record reuse =
  global :: "ref list"
  ephemeral :: "ref list"

record connManager =
  reuseUDP4 :: reuse
  reuseUDP6 :: reuse

text \<open>Which of the two registries of the manager a \<^verbatim>\<open>*reuse\<close> points to.\<close>

datatype reuse_ptr = ReuseUDP4 | ReuseUDP6

record store =
  conns :: "ref \<rightharpoonup> reuseConn"
  fresh :: ref
  manager :: connManager

fun deref :: "store \<Rightarrow> reuse_ptr \<Rightarrow> reuse" where
  "deref st ReuseUDP4 = reuseUDP4 (manager st)"
| "deref st ReuseUDP6 = reuseUDP6 (manager st)"

fun assign :: "reuse_ptr \<Rightarrow> reuse \<Rightarrow> store \<Rightarrow> store" where
  "assign ReuseUDP4 r st = st\<lparr> manager := (manager st)\<lparr> reuseUDP4 := r \<rparr> \<rparr>"
| "assign ReuseUDP6 r st = st\<lparr> manager := (manager st)\<lparr> reuseUDP6 := r \<rparr> \<rparr>"

text \<open>Modelled from the spec: \<^verbatim>\<open>newReuse\<close>, a registry with no connection.\<close>

definition newReuse :: reuse where
  "newReuse = \<lparr> global = [], ephemeral = [] \<rparr>"

definition IsUnspecified :: "bytes \<Rightarrow> bool" where
  "IsUnspecified ip = (ip = replicate 4 0 \<or> ip = replicate 16 0)"

definition wildcard :: "reuse_ptr \<Rightarrow> UDPAddr" where
  "wildcard rp = \<lparr> IP = (case rp of ReuseUDP4 \<Rightarrow> replicate 4 0 | ReuseUDP6 \<Rightarrow> replicate 16 0),
                   Port = 0 \<rparr>"

definition IncreaseCount :: "ref \<Rightarrow> store \<Rightarrow> store" where
  "IncreaseCount r st =
     (case conns st r of
        None \<Rightarrow> st
      | Some c \<Rightarrow> st\<lparr> conns := (conns st)(r \<mapsto> c\<lparr> refCount := refCount c + 1 \<rparr>) \<rparr>)"

definition GetCount :: "store \<Rightarrow> ref \<Rightarrow> int" where
  "GetCount st r = (case conns st r of None \<Rightarrow> 0 | Some c \<Rightarrow> refCount c)"

definition is_ephemeral :: "store \<Rightarrow> ref \<Rightarrow> bool" where
  "is_ephemeral st r =
     (r \<in> set (ephemeral (reuseUDP4 (manager st))) \<or> r \<in> set (ephemeral (reuseUDP6 (manager st))))"

definition forget :: "ref \<Rightarrow> reuse \<Rightarrow> reuse" where
  "forget r reg = reg\<lparr> ephemeral := removeAll r (ephemeral reg) \<rparr>"

text \<open>
  Modelled from the spec: \<^verbatim>\<open>DecreaseCount\<close> takes one from the count; an ephemeral
  connection whose count reaches zero is closed and removed from its registry, a global
  one stays.
\<close>

definition DecreaseCount :: "ref \<Rightarrow> store \<Rightarrow> store" where
  "DecreaseCount r st =
     (case conns st r of
        None \<Rightarrow> st
      | Some c \<Rightarrow>
          (let c' = c\<lparr> refCount := refCount c - 1 \<rparr>
           in if refCount c' = 0 \<and> is_ephemeral st r
              then st\<lparr> conns := (conns st)(r \<mapsto> c'\<lparr> closed := True \<rparr>),
                       manager := \<lparr> reuseUDP4 = forget r (reuseUDP4 (manager st)),
                                    reuseUDP6 = forget r (reuseUDP6 (manager st)) \<rparr> \<rparr>
              else st\<lparr> conns := (conns st)(r \<mapsto> c') \<rparr>))"

text \<open>Binding a socket: a new connection with count 1.\<close>

definition bind :: "env \<Rightarrow> string \<Rightarrow> UDPAddr \<Rightarrow> store \<Rightarrow> (error + ref) \<times> store" where
  "bind E network laddr st =
     (case net_ListenUDP E network laddr of
        Inl err \<Rightarrow> (Inl err, st)
      | Inr bound \<Rightarrow>
          (Inr (fresh st),
           st\<lparr> conns := (conns st)(fresh st \<mapsto> \<lparr> LocalAddr = bound, refCount = 1, closed = False \<rparr>),
               fresh := Suc (fresh st) \<rparr>))"

text \<open>
  Modelled from the spec (listen policy): bind exactly \<open>laddr\<close>; a wildcard address
  goes to the global set, any other to the ephemeral set.
\<close>

definition reuse_Listen ::
  "env \<Rightarrow> reuse_ptr \<Rightarrow> string \<Rightarrow> UDPAddr \<Rightarrow> store \<Rightarrow> (error + ref) \<times> store" where
  "reuse_Listen E rp network laddr st =
     (case bind E network laddr st of
        (Inl err, st1) \<Rightarrow> (Inl err, st1)
      | (Inr r, st1) \<Rightarrow>
          (let reg = deref st1 rp
           in if IsUnspecified (IP laddr)
              then (Inr r, assign rp (reg\<lparr> global := global reg @ [r] \<rparr>) st1)
              else (Inr r, assign rp (reg\<lparr> ephemeral := ephemeral reg @ [r] \<rparr>) st1)))"

text \<open>
  Modelled from the spec (dial policy): a global connection first, else an ephemeral
  one, else a new socket on the family's wildcard address with a port the system
  chooses, installed as ephemeral.
\<close>

definition reuse_Dial ::
  "env \<Rightarrow> reuse_ptr \<Rightarrow> string \<Rightarrow> UDPAddr \<Rightarrow> store \<Rightarrow> (error + ref) \<times> store" where
  "reuse_Dial E rp network raddr st =
     (case global (deref st rp) of
        r # _ \<Rightarrow> (Inr r, IncreaseCount r st)
      | [] \<Rightarrow>
          (case ephemeral (deref st rp) of
             r # _ \<Rightarrow> (Inr r, IncreaseCount r st)
           | [] \<Rightarrow>
               (case bind E network (wildcard rp) st of
                  (Inl err, st1) \<Rightarrow> (Inl err, st1)
                | (Inr r, st1) \<Rightarrow>
                    (let reg = deref st1 rp
                     in (Inr r, assign rp (reg\<lparr> ephemeral := ephemeral reg @ [r] \<rparr>) st1)))))"

section \<open>Connection manager and transport (transport.go)\<close>

definition newConnManager :: connManager where
  "newConnManager = \<lparr> reuseUDP4 = newReuse, reuseUDP6 = newReuse \<rparr>"

definition getReuse :: "string \<Rightarrow> error + reuse_ptr" where
  "getReuse network =
     (if network = ''udp4'' then Inr ReuseUDP4
      else if network = ''udp6'' then Inr ReuseUDP6
      else Inl InvalidNetwork)"

definition connManager_Listen ::
  "env \<Rightarrow> string \<Rightarrow> UDPAddr \<Rightarrow> store \<Rightarrow> (error + ref) \<times> store" where
  "connManager_Listen E network laddr st =
     (case getReuse network of
        Inl err \<Rightarrow> (Inl err, st)
      | Inr rp \<Rightarrow> reuse_Listen E rp network laddr st)"

definition connManager_Dial ::
  "env \<Rightarrow> string \<Rightarrow> UDPAddr \<Rightarrow> store \<Rightarrow> (error + ref) \<times> store" where
  "connManager_Dial E network raddr st =
     (case getReuse network of
        Inl err \<Rightarrow> (Inl err, st)
      | Inr rp \<Rightarrow> reuse_Dial E rp network raddr st)"

text \<open>
  The transport. Its \<^verbatim>\<open>connManager\<close> field points to the manager of the store, which
  is passed along and returned by the operations that change it.
\<close>

record transport =
  privKey :: PrivKey
  localPeer :: peer_ID
  tlsConf :: tls_Config

definition newStore :: store where
  "newStore = \<lparr> conns = Map.empty, fresh = 0, manager = newConnManager \<rparr>"

definition NewTransport ::
  "env \<Rightarrow> PrivKey \<Rightarrow> world \<Rightarrow> (error + (transport \<times> store)) \<times> world" where
  "NewTransport E key w =
     (case IDFromPrivateKey E key of
        Inl err \<Rightarrow> (Inl err, w)
      | Inr lp \<Rightarrow>
          (case generateConfig E key w of
             (Inl err, w1) \<Rightarrow> (Inl err, w1)
           | (Inr conf, w1) \<Rightarrow>
               (Inr (\<lparr> privKey = key, localPeer = lp, tlsConf = conf \<rparr>, newStore), w1)))"

subsection \<open>The handshake\<close>

text \<open>The loop of the callback: parse every raw certificate, stop at the first error.\<close>

fun parse_chain :: "der list \<Rightarrow> error + Certificate list" where
  "parse_chain [] = Inr []"
| "parse_chain (raw # rest) =
     (case x509_ParseCertificate raw of
        Inl err \<Rightarrow> Inl err
      | Inr cert \<Rightarrow>
          (case parse_chain rest of
             Inl err \<Rightarrow> Inl err
           | Inr chain \<Rightarrow> Inr (cert # chain)))"

text \<open>
  The closure that \<^verbatim>\<open>Dial\<close> installs as \<^verbatim>\<open>VerifyPeerCertificate\<close>. It captures
  the expected peer \<open>p\<close> and the variable \<^verbatim>\<open>remotePubKey\<close>; the assignment
  \<^verbatim>\<open>remotePubKey, err = getRemotePubKey(chain)\<close> stores nil when the call fails.
\<close>

definition Dial_VerifyPeerCertificate ::
  "env \<Rightarrow> peer_ID \<Rightarrow> PubKey option \<Rightarrow> der list \<Rightarrow> error option \<times> PubKey option" where
  "Dial_VerifyPeerCertificate E p remotePubKey rawCerts =
     (case parse_chain rawCerts of
        Inl err \<Rightarrow> (Some err, remotePubKey)
      | Inr chain \<Rightarrow>
          (case getRemotePubKey E chain of
             Inl err \<Rightarrow> (Some err, None)
           | Inr k \<Rightarrow>
               (if \<not> MatchesPublicKey E p k then (Some PeerIDsDontMatch, Some k)
                else (None, Some k))))"

text \<open>
  What the network and the remote peer do during one handshake: fail before the
  peer's certificates arrive (unreachable, cancelled), present certificates, fail
  afterwards.
\<close>

record handshake =
  early_error :: "error option"
  peer_rawCerts :: "der list"
  late_error :: "error option"

datatype quic_Session = Session ref UDPAddr string

text \<open>
  \<^verbatim>\<open>quic.DialContext\<close>: the TLS handshake inside QUIC calls the configuration's
  \<^verbatim>\<open>VerifyPeerCertificate\<close> once, on the certificates the peer presents, and fails
  with the callback's error when it returns one. The second component is the value
  of the variable the callback captured.
\<close>

definition quic_DialContext ::
  "handshake \<Rightarrow> ref \<Rightarrow> UDPAddr \<Rightarrow> string \<Rightarrow> tls_Config \<Rightarrow> PubKey option
     \<Rightarrow> (error + quic_Session) \<times> PubKey option" where
  "quic_DialContext H pconn addr host conf var =
     (case early_error H of
        Some err \<Rightarrow> (Inl err, var)
      | None \<Rightarrow>
          (let (verdict, var') =
                 (case VerifyPeerCertificate conf of
                    None \<Rightarrow> (None, var)
                  | Some verify \<Rightarrow> verify var (peer_rawCerts H))
           in case verdict of
                Some err \<Rightarrow> (Inl err, var')
              | None \<Rightarrow>
                  (case late_error H of
                     Some err \<Rightarrow> (Inl err, var')
                   | None \<Rightarrow> (Inr (Session pconn addr host), var'))))"

subsection \<open>Dial\<close>

record conn =
  sess :: quic_Session
  transport :: transport
  privKey :: PrivKey
  localPeer :: peer_ID
  localMultiaddr :: Multiaddr
  remotePubKey :: "PubKey option"
  remotePeerID :: peer_ID
  remoteMultiaddr :: Multiaddr

text \<open>
  \<^verbatim>\<open>pconn.LocalAddr()\<close>: the address of the connection a reference points to (a
  reference that \<^verbatim>\<open>connManager.Dial\<close> returned always points to one).
\<close>

definition reuseConn_LocalAddr :: "store \<Rightarrow> ref \<Rightarrow> UDPAddr" where
  "reuseConn_LocalAddr st r =
     (case conns st r of
        Some c \<Rightarrow> LocalAddr c
      | None \<Rightarrow> \<lparr> IP = [], Port = 0 \<rparr>)"

text \<open>
  \<^verbatim>\<open>transport.Dial\<close>, up to its return. The goroutine it starts on success gives the
  reference back later, when the session ends; at the return the reference is held.
\<close>

definition Dial ::
  "env \<Rightarrow> handshake \<Rightarrow> transport \<Rightarrow> Multiaddr \<Rightarrow> peer_ID \<Rightarrow> store
     \<Rightarrow> (error + conn) \<times> store" where
  "Dial E H t raddr p st =
     (case manet_DialArgs E raddr of
        Inl err \<Rightarrow> (Inl err, st)
      | Inr (network, host) \<Rightarrow>
          (case net_ResolveUDPAddr E network host of
             Inl err \<Rightarrow> (Inl err, st)
           | Inr udpAddr \<Rightarrow>
               (case fromQuicMultiaddr E raddr of
                  Inl err \<Rightarrow> (Inl err, st)
                | Inr addr \<Rightarrow>
                    (let conf = (tlsConf t)\<lparr> VerifyPeerCertificate :=
                                                Some (Dial_VerifyPeerCertificate E p) \<rparr>
                     in case connManager_Dial E network udpAddr st of
                          (Inl err, st1) \<Rightarrow> (Inl err, st1)
                        | (Inr pconn, st1) \<Rightarrow>
                            (case toQuicMultiaddr E (reuseConn_LocalAddr st1 pconn) of
                               Inl err \<Rightarrow> (Inl err, DecreaseCount pconn st1)
                             | Inr lma \<Rightarrow>
                                 (case quic_DialContext H pconn addr host conf None of
                                    (Inl err, _) \<Rightarrow> (Inl err, DecreaseCount pconn st1)
                                  | (Inr s, rpk) \<Rightarrow>
                                      (Inr \<lparr> sess = s,
                                             transport = t,
                                             privKey = transport.privKey t,
                                             localPeer = transport.localPeer t,
                                             localMultiaddr = lma,
                                             remotePubKey = rpk,
                                             remotePeerID = p,
                                             remoteMultiaddr = raddr \<rparr>, st1)))))))"

text \<open>
  The store is well formed when every reference held by a registry points to a
  connection. The empty store is, and the operations keep it so.
\<close>

definition registered :: "store \<Rightarrow> ref list" where
  "registered st =
     global (reuseUDP4 (manager st)) @ ephemeral (reuseUDP4 (manager st)) @
     global (reuseUDP6 (manager st)) @ ephemeral (reuseUDP6 (manager st))"

definition wf_store :: "store \<Rightarrow> bool" where
  "wf_store st = list_all (\<lambda>r. conns st r \<noteq> None) (registered st)"



text \<open>The validity window of the certificate that \<^verbatim>\<open>keyToCertificate\<close> returned.\<close>

definition validity :: "(error + signer \<times> Certificate) \<Rightarrow> (int \<times> int) option" where
  "validity res =
     (case res of
        Inl err \<Rightarrow> None
      | Inr (key, cert) \<Rightarrow> Some (NotBefore cert, NotAfter cert))"

text \<open>
  What the documentation of \<^verbatim>\<open>rand.Int\<close> promises: a value in \<open>[0, max)\<close>.
\<close>

definition rand_Int_in_range :: "env \<Rightarrow> int \<Rightarrow> bool" where
  "rand_Int_in_range E m = (case rand_Int E m of Inl err \<Rightarrow> True | Inr r \<Rightarrow> 0 \<le> r \<and> r < m)"

section \<open>A concrete environment\<close>

text \<open>
  One instance of the libraries, small enough to compute with: keys are an envelope of
  a tag byte and data, a certificate verifies under a pool that holds the certificate
  of its signing key, and the peer \<open>QmRsa\<close> owns every RSA key.
\<close>

definition env0 :: env where
  "env0 =
     \<lparr> rand_Int = (\<lambda>m. if m \<le> 0 then Inl (LibError ''crypto/rand: argument to Int is <= 0'')
                        else Inr (123456789 mod m)),
       proto_Unmarshal = (\<lambda>b. case b of
            [] \<Rightarrow> Inl (LibError ''proto: unexpected EOF'')
          | tag # d \<Rightarrow>
              (if tag = 0 then Inr \<lparr> Type = RSA, Data = d \<rparr>
               else if tag = 1 then Inr \<lparr> Type = Ed25519, Data = d \<rparr>
               else if tag = 2 then Inr \<lparr> Type = Secp256k1, Data = d \<rparr>
               else if tag = 3 then Inr \<lparr> Type = ECDSA, Data = d \<rparr>
               else Inl (LibError ''proto: bad key type''))),
       x509_ParsePKCS1PrivateKey = (\<lambda>b. case b of
            [] \<Rightarrow> Inl (LibError ''x509: failed to parse private key'')
          | x # _ \<Rightarrow> Inr (unat x, 65537, 1)),
       ed25519_Public = drop 32,
       ecdsa_GenerateKey = (\<lambda>c. Inr (5, 9)),
       sign_error = (\<lambda>c s. None),
       x509_Verify = (\<lambda>c roots.
            if list_ex (\<lambda>r. SignatureKey c = Some (PublicKey r)) roots then None
            else Some (LibError ''x509: certificate signed by unknown authority'')),
       x509_MarshalPKIXPublicKey = (\<lambda>k. case k of
            RsaPublicKey n e \<Rightarrow> Inr [of_nat n]
          | _ \<Rightarrow> Inl (LibError ''x509: unsupported public key type'')),
       UnmarshalRsaPublicKey = (\<lambda>b. Inr (PubKey RSA b)),
       UnmarshalEd25519PublicKey = (\<lambda>b. Inr (PubKey Ed25519 b)),
       IDFromPrivateKey = (\<lambda>sk. case Bytes sk of
            Inl err \<Rightarrow> Inl err
          | Inr b \<Rightarrow> Inr (if take 1 b = [0] then ''QmRsa'' else ''QmOther'')),
       MatchesPublicKey = (\<lambda>p k. case k of
            PubKey t b \<Rightarrow> (t = RSA \<and> p = ''QmRsa'') \<or> (t = Ed25519 \<and> p = ''QmEd'')),
       manet_DialArgs = (\<lambda>a.
            if a = ''/ip4/127.0.0.1/udp/4001/quic'' then Inr (''udp4'', ''127.0.0.1:4001'')
            else Inl (LibError ''not a dialable multiaddr'')),
       net_ResolveUDPAddr = (\<lambda>n h. Inr \<lparr> IP = [127, 0, 0, 1], Port = 4001 \<rparr>),
       net_ListenUDP = (\<lambda>n a. Inr (if Port a = 0 then a\<lparr> Port := 50000 \<rparr> else a)),
       fromQuicMultiaddr = (\<lambda>a. Inr \<lparr> IP = [127, 0, 0, 1], Port = 4001 \<rparr>),
       toQuicMultiaddr = (\<lambda>a. Inr ''/ip4/0.0.0.0/udp/50000/quic'') \<rparr>"

definition sk_rsa :: PrivKey where
  "sk_rsa = \<lparr> Bytes = Inr [0, 7] \<rparr>"

definition sk_ecdsa :: PrivKey where
  "sk_ecdsa = \<lparr> Bytes = Inr [3, 7] \<rparr>"

text \<open>A clock that reads one second more from its third reading on.\<close>

definition w0 :: world where
  "w0 = \<lparr> clock = (\<lambda>n. if n < 2 then 1558656000 else 1558656001), ticks = 0 \<rparr>"

text \<open>A clock that moves on by a second right after its first reading.\<close>

definition w1 :: world where
  "w1 = \<lparr> clock = (\<lambda>n. if n < 1 then 1558656000 else 1558656001), ticks = 0 \<rparr>"

text \<open>The host certificate of \<open>sk_rsa\<close> under \<open>env0\<close> and \<open>w0\<close>, and two leaves.\<close>

definition host_rsa :: Certificate where
  "host_rsa = Certificate_zero\<lparr> SerialNumber := 123456789, NotBefore := 1558569600,
       NotAfter := 1574208000, IsCA := True, BasicConstraintsValid := True,
       PublicKey := RsaPublicKey 7 65537, SignatureKey := Some (RsaPublicKey 7 65537) \<rparr>"

definition leaf_rsa :: Certificate where
  "leaf_rsa = Certificate_zero\<lparr> DNSNames := [hostname], SerialNumber := 1,
       NotBefore := 1558569601, NotAfter := 1574208001,
       PublicKey := EcdsaPublicKey P256 9, SignatureKey := Some (RsaPublicKey 7 65537) \<rparr>"

definition leaf_stray :: Certificate where
  "leaf_stray = leaf_rsa\<lparr> SignatureKey := Some (RsaPublicKey 11 65537) \<rparr>"

definition host_ecdsa :: Certificate where
  "host_ecdsa = host_rsa\<lparr> PublicKey := EcdsaPublicKey P256 4,
       SignatureKey := Some (EcdsaPublicKey P256 4) \<rparr>"

definition leaf_ecdsa :: Certificate where
  "leaf_ecdsa = leaf_rsa\<lparr> SignatureKey := Some (EcdsaPublicKey P256 4) \<rparr>"

definition t0 :: transport where
  "t0 = \<lparr> transport.privKey = sk_rsa, transport.localPeer = ''QmRsa'',
          tlsConf = \<lparr> ServerName = hostname, InsecureSkipVerify = True,
                      ClientAuth = RequireAnyClientCert,
                      Certificates = [\<lparr> Certificate_chain = [Raw leaf_rsa, Raw host_rsa],
                                        PrivateKey = \<lparr> Curve = P256, Q = 9, D = 5 \<rparr> \<rparr>],
                      VerifyPeerCertificate = None \<rparr> \<rparr>"

definition H_ok :: handshake where
  "H_ok = \<lparr> early_error = None, peer_rawCerts = [Raw leaf_rsa, Raw host_rsa],
            late_error = None \<rparr>"

definition H_timeout :: handshake where
  "H_timeout = \<lparr> early_error = Some (LibError ''context deadline exceeded''),
                 peer_rawCerts = [], late_error = None \<rparr>"

text \<open>
  A dial on the empty store under \<open>env0\<close>: the store once the reference is taken, the
  store once it is given back, and the connection a successful dial returns.
\<close>

definition raddr0 :: Multiaddr where
  "raddr0 = ''/ip4/127.0.0.1/udp/4001/quic''"

definition store_held :: store where
  "store_held =
     \<lparr> conns = [0 \<mapsto> \<lparr> LocalAddr = \<lparr> IP = [0, 0, 0, 0], Port = 50000 \<rparr>,
                        refCount = 1, closed = False \<rparr>],
       fresh = 1,
       manager = \<lparr> reuseUDP4 = \<lparr> global = [], ephemeral = [0] \<rparr>, reuseUDP6 = newReuse \<rparr> \<rparr>"

definition store_released :: store where
  "store_released =
     \<lparr> conns = [0 \<mapsto> \<lparr> LocalAddr = \<lparr> IP = [0, 0, 0, 0], Port = 50000 \<rparr>,
                        refCount = 0, closed = True \<rparr>],
       fresh = 1,
       manager = \<lparr> reuseUDP4 = newReuse, reuseUDP6 = newReuse \<rparr> \<rparr>"

definition conn0 :: conn where
  "conn0 =
     \<lparr> sess = Session 0 \<lparr> IP = [127, 0, 0, 1], Port = 4001 \<rparr> ''127.0.0.1:4001'',
       transport = t0,
       privKey = sk_rsa,
       localPeer = ''QmRsa'',
       localMultiaddr = ''/ip4/0.0.0.0/udp/50000/quic'',
       remotePubKey = Some (PubKey RSA [7]),
       remotePeerID = ''QmRsa'',
       remoteMultiaddr = raddr0 \<rparr>"

section \<open>Properties of the identity certificates\<close>

lemma keyToCertificate_switch_unsupported:
  "Type pbmes \<noteq> RSA \<Longrightarrow> Type pbmes \<noteq> Ed25519 \<Longrightarrow>
     keyToCertificate_switch E pbmes = Inl UnsupportedKeyTypeForTLS"
  by (cases "Type pbmes") (simp_all add: keyToCertificate_switch_def)

lemma keyToCertificate_switch_Public:
  "keyToCertificate_switch E pbmes = Inr (pub, key) \<Longrightarrow> pub = signer_Public E key"
  by (cases "Type pbmes")
     (auto simp: keyToCertificate_switch_def Let_def split: sum.splits)

lemma keyToCertificate_switch_supported:
  "keyToCertificate_switch E pbmes = Inr (pub, key) \<Longrightarrow> Type pbmes = RSA \<or> Type pbmes = Ed25519"
  by (cases "Type pbmes") (auto simp: keyToCertificate_switch_def)

lemma keyToCertificate_unsupported:
  assumes "Bytes sk = Inr kb" "proto_Unmarshal E kb = Inr pbmes"
    "Type pbmes \<noteq> RSA" "Type pbmes \<noteq> Ed25519"
  shows "keyToCertificate E sk w =
     (case rand_Int E (2 ^ 62) of
        Inl err \<Rightarrow> (Inl err, w)
      | Inr sn \<Rightarrow> (Inl UnsupportedKeyTypeForTLS, w\<lparr>ticks := Suc (Suc (ticks w))\<rparr>))"
  using assms keyToCertificate_switch_unsupported[of pbmes E]
  by (simp add: keyToCertificate_def time_Now_def split: sum.splits)

lemma keyToCertificate_Inr:
  assumes "keyToCertificate E sk w = (Inr (key, cert), w')"
  shows "\<exists>sn kb pbmes.
           rand_Int E (2 ^ 62) = Inr sn \<and> Bytes sk = Inr kb \<and>
           proto_Unmarshal E kb = Inr pbmes \<and>
           keyToCertificate_switch E pbmes = Inr (signer_Public E key, key) \<and>
           cert = Certificate_zero\<lparr> SerialNumber := sn,
                    NotBefore := clock w (ticks w) - 24 * Hour,
                    NotAfter := clock w (Suc (ticks w)) + certValidityPeriod,
                    IsCA := True, BasicConstraintsValid := True,
                    PublicKey := signer_Public E key,
                    SignatureKey := Some (signer_Public E key) \<rparr> \<and>
           w' = w\<lparr>ticks := Suc (Suc (ticks w))\<rparr>"
proof -
  obtain sn where sn: "rand_Int E (2 ^ 62) = Inr sn"
    using assms by (cases "rand_Int E (2 ^ 62)") (auto simp: keyToCertificate_def)
  obtain kb where kb: "Bytes sk = Inr kb"
    using assms sn by (cases "Bytes sk") (auto simp: keyToCertificate_def time_Now_def)
  obtain pbmes where pb: "proto_Unmarshal E kb = Inr pbmes"
    using assms sn kb
    by (cases "proto_Unmarshal E kb") (auto simp: keyToCertificate_def time_Now_def)
  obtain pub priv where sw: "keyToCertificate_switch E pbmes = Inr (pub, priv)"
    using assms sn kb pb
    by (cases "keyToCertificate_switch E pbmes") (auto simp: keyToCertificate_def time_Now_def)
  have pub: "pub = signer_Public E priv"
    using sw by (rule keyToCertificate_switch_Public)
  have ok: "sign_error E (Certificate_zero\<lparr> SerialNumber := sn,
                    NotBefore := clock w (ticks w) - 24 * Hour,
                    NotAfter := clock w (Suc (ticks w)) + certValidityPeriod,
                    IsCA := True, BasicConstraintsValid := True \<rparr>) priv = None"
    using assms sn kb pb sw
    by (cases "sign_error E (Certificate_zero\<lparr> SerialNumber := sn,
                    NotBefore := clock w (ticks w) - 24 * Hour,
                    NotAfter := clock w (Suc (ticks w)) + certValidityPeriod,
                    IsCA := True, BasicConstraintsValid := True \<rparr>) priv")
       (auto simp: keyToCertificate_def time_Now_def x509_CreateCertificate_def)
  show ?thesis
    using assms sn kb pb sw pub ok
    by (auto simp: keyToCertificate_def time_Now_def x509_CreateCertificate_def Raw_def)
qed

lemma generateConfig_Inr:
  assumes "generateConfig E sk w = (Inr conf, w')"
  shows "\<exists>key host eph ephKey.
           keyToCertificate E sk w = (Inr (key, host), w\<lparr>ticks := Suc (Suc (ticks w))\<rparr>) \<and>
           ecdsa_GenerateKey_on E P256 = Inr ephKey \<and>
           eph = Certificate_zero\<lparr> DNSNames := [hostname], SerialNumber := 1,
                   NotBefore := clock w (Suc (Suc (ticks w))) - 24 * Hour,
                   NotAfter := clock w (Suc (Suc (Suc (ticks w)))) + certValidityPeriod,
                   PublicKey := ecdsa_Public ephKey,
                   SignatureKey := Some (signer_Public E key) \<rparr> \<and>
           conf = \<lparr> ServerName = hostname, InsecureSkipVerify = True,
                    ClientAuth = RequireAnyClientCert,
                    Certificates = [\<lparr> Certificate_chain = [Raw eph, Raw host],
                                      PrivateKey = ephKey \<rparr>],
                    VerifyPeerCertificate = None \<rparr> \<and>
           w' = w\<lparr>ticks := Suc (Suc (Suc (Suc (ticks w))))\<rparr>"
proof -
  obtain key host w1 where k: "keyToCertificate E sk w = (Inr (key, host), w1)"
    using assms
    by (cases "keyToCertificate E sk w" rule: prod.exhaust[case_product sum.exhaust])
       (auto simp: generateConfig_def split: prod.splits sum.splits)
  have w1: "w1 = w\<lparr>ticks := Suc (Suc (ticks w))\<rparr>"
    using keyToCertificate_Inr[OF k] by auto
  obtain ephKey where e: "ecdsa_GenerateKey_on E P256 = Inr ephKey"
    using assms k by (cases "ecdsa_GenerateKey_on E P256") (auto simp: generateConfig_def)
  let ?tmpl = "Certificate_zero\<lparr> DNSNames := [hostname], SerialNumber := 1,
                   NotBefore := clock w (Suc (Suc (ticks w))) - 24 * Hour,
                   NotAfter := clock w (Suc (Suc (Suc (ticks w)))) + certValidityPeriod \<rparr>"
  have ok: "sign_error E ?tmpl key = None"
    using assms k e w1
    by (cases "sign_error E ?tmpl key")
       (auto simp: generateConfig_def time_Now_def x509_CreateCertificate_def)
  show ?thesis
    using assms k e w1 ok
    by (auto simp: generateConfig_def time_Now_def x509_CreateCertificate_def Raw_def)
qed

lemma keyToCertificate_succeeds:
  assumes "rand_Int E (2 ^ 62) = Inr sn" "Bytes sk = Inr kb" "proto_Unmarshal E kb = Inr pbmes"
    "keyToCertificate_switch E pbmes = Inr (pub, key)" "\<And>c. sign_error E c key = None"
  shows "\<exists>cert. keyToCertificate E sk w = (Inr (key, cert), w\<lparr>ticks := Suc (Suc (ticks w))\<rparr>)"
  using assms
  by (simp add: keyToCertificate_def time_Now_def x509_CreateCertificate_def Raw_def)

lemma generateConfig_succeeds:
  assumes "rand_Int E (2 ^ 62) = Inr sn" "Bytes sk = Inr kb" "proto_Unmarshal E kb = Inr pbmes"
    "keyToCertificate_switch E pbmes = Inr (pub, key)" "\<And>c. sign_error E c key = None"
    "ecdsa_GenerateKey E P256 = Inr dq"
  shows "\<exists>conf w'. generateConfig E sk w = (Inr conf, w')"
proof -
  obtain cert where "keyToCertificate E sk w = (Inr (key, cert), w\<lparr>ticks := Suc (Suc (ticks w))\<rparr>)"
    using keyToCertificate_succeeds[OF assms(1-5)] by blast
  then show ?thesis
    using assms(5,6)
    by (cases dq)
       (simp add: generateConfig_def ecdsa_GenerateKey_on_def time_Now_def
                  x509_CreateCertificate_def Raw_def)
qed

lemma keyToCertificate_env0:
  "keyToCertificate env0 sk_rsa w0 = (Inr (RsaSigner 7 65537 1, host_rsa), w0\<lparr>ticks := 2\<rparr>)"
  by (simp add: keyToCertificate_def keyToCertificate_switch_def env0_def sk_rsa_def w0_def
                time_Now_def x509_CreateCertificate_def Raw_def host_rsa_def Hour_def
                certValidityPeriod_def)

lemma generateConfig_unsupported:
  assumes "Bytes sk = Inr kb" "proto_Unmarshal E kb = Inr pbmes"
    "Type pbmes \<noteq> RSA" "Type pbmes \<noteq> Ed25519"
  shows "generateConfig E sk w =
     (case rand_Int E (2 ^ 62) of
        Inl err \<Rightarrow> (Inl err, w)
      | Inr sn \<Rightarrow> (Inl UnsupportedKeyTypeForTLS, w\<lparr>ticks := Suc (Suc (ticks w))\<rparr>))"
  by (simp add: generateConfig_def keyToCertificate_unsupported[OF assms] split: sum.splits)

lemma clock_w0: "clock w0 n = (if n < 2 then 1558656000 else 1558656001)"
  by (simp add: w0_def)


lemma generateConfig_env0:
  "generateConfig env0 sk_rsa w0 = (Inr (tlsConf t0), w0\<lparr>ticks := 4\<rparr>)"
proof -
  have e: "ecdsa_GenerateKey_on env0 P256 = Inr \<lparr> Curve = P256, Q = 9, D = 5 \<rparr>"
    by (simp add: ecdsa_GenerateKey_on_def env0_def)
  have s: "sign_error env0 c k = None" for c k
    by (simp add: env0_def)
  show ?thesis
    by (simp add: generateConfig_def keyToCertificate_env0 e s clock_w0
                  x509_CreateCertificate_def time_Now_def Raw_def t0_def
                  leaf_rsa_def ecdsa_Public_def Hour_def certValidityPeriod_def)
qed


lemma getRemotePubKey_Inr:
  "getRemotePubKey E chain = Inr k \<Longrightarrow>
     length chain = 2 \<and> x509_Verify E (chain ! 0) [chain ! 1] = None \<and>
     (\<exists>n e. PublicKey (chain ! 1) = RsaPublicKey n e) \<or>
     length chain = 2 \<and> x509_Verify E (chain ! 0) [chain ! 1] = None \<and>
     (\<exists>b. PublicKey (chain ! 1) = Ed25519PublicKey b)"
  by (auto simp: getRemotePubKey_def split: if_splits option.splits x509_PublicKey.splits)

lemma getRemotePubKey_env0:
  "getRemotePubKey env0 [leaf_rsa, host_rsa] = Inr (PubKey RSA [7])"
  by (simp add: getRemotePubKey_def env0_def leaf_rsa_def host_rsa_def Certificate_zero_def)

lemma keyToCertificate_switch_key:
  "keyToCertificate_switch E pbmes = Inr (pub, key) \<Longrightarrow>
     Type pbmes = RSA \<and>
       (\<exists>n e d. x509_ParsePKCS1PrivateKey E (Data pbmes) = Inr (n, e, d) \<and>
                key = RsaSigner n e d \<and> pub = RsaPublicKey n e) \<or>
     Type pbmes = Ed25519 \<and> key = Ed25519Signer (Data pbmes) \<and>
       pub = Ed25519PublicKey (ed25519_Public E (Data pbmes))"
  by (cases "Type pbmes")
     (auto simp: keyToCertificate_switch_def Let_def split: sum.splits)

lemma keyToCertificate_env0_w1:
  "keyToCertificate env0 sk_rsa w1 =
     (Inr (RsaSigner 7 65537 1, host_rsa\<lparr> NotAfter := 1574208001 \<rparr>), w1\<lparr>ticks := 2\<rparr>)"
  by (simp add: keyToCertificate_def keyToCertificate_switch_def env0_def sk_rsa_def w1_def
                time_Now_def x509_CreateCertificate_def Raw_def host_rsa_def Hour_def
                certValidityPeriod_def)


section \<open>Properties of the dial\<close>

lemma Dial_VerifyPeerCertificate_None:
  "Dial_VerifyPeerCertificate E p v rawCerts = (None, v') \<Longrightarrow>
     \<exists>chain k. parse_chain rawCerts = Inr chain \<and> getRemotePubKey E chain = Inr k \<and>
               MatchesPublicKey E p k \<and> v' = Some k"
  by (auto simp: Dial_VerifyPeerCertificate_def split: sum.splits if_splits)

lemma quic_DialContext_Inr:
  assumes "quic_DialContext H pconn addr host conf v = (Inr s, v')"
    and "VerifyPeerCertificate conf = Some verify"
  shows "early_error H = None \<and> late_error H = None \<and> verify v (peer_rawCerts H) = (None, v') \<and>
         s = Session pconn addr host"
  using assms
  by (auto simp: quic_DialContext_def Let_def split: option.splits prod.splits)

lemma Dial_Inr:
  assumes "Dial E H t raddr p st = (Inr c, st')"
  shows "\<exists>network host udpAddr addr pconn lma s rpk.
           manet_DialArgs E raddr = Inr (network, host) \<and>
           net_ResolveUDPAddr E network host = Inr udpAddr \<and>
           fromQuicMultiaddr E raddr = Inr addr \<and>
           connManager_Dial E network udpAddr st = (Inr pconn, st') \<and>
           quic_DialContext H pconn addr host
             ((tlsConf t)\<lparr> VerifyPeerCertificate := Some (Dial_VerifyPeerCertificate E p) \<rparr>)
             None = (Inr s, rpk) \<and>
           c = \<lparr> sess = s, transport = t, privKey = transport.privKey t,
                 localPeer = transport.localPeer t, localMultiaddr = lma,
                 remotePubKey = rpk, remotePeerID = p, remoteMultiaddr = raddr \<rparr>"
  using assms
  by (auto simp: Dial_def Let_def split: sum.splits prod.splits)

lemma Dial_Inl_after_acquire:
  assumes "manet_DialArgs E raddr = Inr (network, host)"
    and "net_ResolveUDPAddr E network host = Inr udpAddr"
    and "fromQuicMultiaddr E raddr = Inr addr"
    and "connManager_Dial E network udpAddr st = (Inr pconn, st1)"
    and "Dial E H t raddr p st = (Inl err, st')"
  shows "st' = DecreaseCount pconn st1"
  using assms
  by (auto simp: Dial_def Let_def split: sum.splits prod.splits)


lemma wildcard_ReuseUDP4: "wildcard ReuseUDP4 = \<lparr> IP = [0, 0, 0, 0], Port = 0 \<rparr>"
  by (simp add: wildcard_def eval_nat_numeral)

lemma connManager_Dial_env0:
  "connManager_Dial env0 ''udp4'' a newStore = (Inr 0, store_held)"
  by (simp add: connManager_Dial_def getReuse_def reuse_Dial_def newStore_def newConnManager_def
                newReuse_def bind_def wildcard_ReuseUDP4 env0_def store_held_def)

lemma DecreaseCount_store_held: "DecreaseCount 0 store_held = store_released"
  by (simp add: DecreaseCount_def store_held_def store_released_def is_ephemeral_def
                forget_def newReuse_def)

lemma parse_chain_ok: "parse_chain [Raw leaf_rsa, Raw host_rsa] = Inr [leaf_rsa, host_rsa]"
  by (simp add: Raw_def)

lemma Dial_env0_ok: "Dial env0 H_ok t0 raddr0 ''QmRsa'' newStore = (Inr conn0, store_held)"
proof -
  have a: "manet_DialArgs env0 raddr0 = Inr (''udp4'', ''127.0.0.1:4001'')"
    "net_ResolveUDPAddr env0 n h = Inr \<lparr> IP = [127, 0, 0, 1], Port = 4001 \<rparr>"
    "fromQuicMultiaddr env0 x = Inr \<lparr> IP = [127, 0, 0, 1], Port = 4001 \<rparr>"
    "toQuicMultiaddr env0 y = Inr ''/ip4/0.0.0.0/udp/50000/quic''"
    "MatchesPublicKey env0 ''QmRsa'' (PubKey RSA [7])" for n h x y
    by (simp_all add: env0_def raddr0_def)
  have v: "Dial_VerifyPeerCertificate env0 ''QmRsa'' None [Raw leaf_rsa, Raw host_rsa] =
             (None, Some (PubKey RSA [7]))"
    by (simp add: Dial_VerifyPeerCertificate_def Raw_def getRemotePubKey_env0 a)
  have q: "quic_DialContext H_ok 0 ad ho
             ((tlsConf t0)\<lparr> VerifyPeerCertificate := Some (Dial_VerifyPeerCertificate env0 ''QmRsa'') \<rparr>)
             None = (Inr (Session 0 ad ho), Some (PubKey RSA [7]))" for ad ho
    by (simp add: quic_DialContext_def H_ok_def v)
  show ?thesis
    by (simp add: Dial_def a connManager_Dial_env0 q conn0_def)
       (simp add: t0_def store_held_def)
qed

lemma Dial_env0_timeout:
  "Dial env0 H_timeout t0 raddr0 ''QmRsa'' newStore =
     (Inl (LibError ''context deadline exceeded''), store_released)"
proof -
  have a: "manet_DialArgs env0 raddr0 = Inr (''udp4'', ''127.0.0.1:4001'')"
    "net_ResolveUDPAddr env0 n h = Inr \<lparr> IP = [127, 0, 0, 1], Port = 4001 \<rparr>"
    "fromQuicMultiaddr env0 x = Inr \<lparr> IP = [127, 0, 0, 1], Port = 4001 \<rparr>"
    "toQuicMultiaddr env0 y = Inr ''/ip4/0.0.0.0/udp/50000/quic''" for n h x y
    by (simp_all add: env0_def raddr0_def)
  have q: "quic_DialContext H_timeout pc ad ho cf None =
             (Inl (LibError ''context deadline exceeded''), None)" for pc ad ho cf
    by (simp add: quic_DialContext_def H_timeout_def)
  show ?thesis
    by (simp add: Dial_def a connManager_Dial_env0 q DecreaseCount_store_held)
qed


lemma DecreaseCount_GetCount:
  "conns st r \<noteq> None \<Longrightarrow> GetCount (DecreaseCount r st) r = GetCount st r - 1"
  by (auto simp: DecreaseCount_def GetCount_def Let_def)

lemma DecreaseCount_GetCount_other:
  "r' \<noteq> r \<Longrightarrow> GetCount (DecreaseCount r st) r' = GetCount st r'"
  by (auto simp: DecreaseCount_def GetCount_def Let_def split: option.splits)

lemma IncreaseCount_conns:
  "conns st r \<noteq> None \<Longrightarrow> conns (IncreaseCount r' st) r \<noteq> None"
  by (auto simp: IncreaseCount_def split: option.splits)

lemma wf_store_hd:
  "wf_store st \<Longrightarrow> global (deref st rp) = r # rs \<or> ephemeral (deref st rp) = r # rs \<Longrightarrow>
     conns st r \<noteq> None"
  by (cases rp) (auto simp: wf_store_def registered_def)

lemma reuse_Dial_ref:
  assumes "wf_store st" and "reuse_Dial E rp network raddr st = (Inr pconn, st1)"
  shows "conns st1 pconn \<noteq> None"
proof (cases "global (deref st rp)")
  case (Cons r rs)
  then have "pconn = r" "st1 = IncreaseCount r st"
    using assms(2) by (auto simp: reuse_Dial_def)
  moreover have "conns st r \<noteq> None"
    using wf_store_hd[OF assms(1)] Cons by blast
  ultimately show ?thesis
    by (simp add: IncreaseCount_conns)
next
  case Nil
  show ?thesis
  proof (cases "ephemeral (deref st rp)")
    case (Cons r rs)
    then have "pconn = r" "st1 = IncreaseCount r st"
      using assms(2) Nil by (auto simp: reuse_Dial_def)
    moreover have "conns st r \<noteq> None"
      using wf_store_hd[OF assms(1)] Cons by blast
    ultimately show ?thesis
      by (simp add: IncreaseCount_conns)
  next
    case Nil2: Nil
    show ?thesis
      using assms(2) Nil Nil2
      by (cases rp)
         (auto simp: reuse_Dial_def bind_def Let_def split: sum.splits)
  qed
qed

lemma connManager_Dial_ref:
  assumes "wf_store st" and "connManager_Dial E network raddr st = (Inr pconn, st1)"
  shows "conns st1 pconn \<noteq> None"
  using assms reuse_Dial_ref[of st E _ network raddr pconn st1]
  by (auto simp: connManager_Dial_def split: sum.splits)

lemma wf_newStore: "wf_store newStore"
  by (simp add: wf_store_def registered_def newStore_def newConnManager_def newReuse_def)

lemma Dial_verified:
  assumes "Dial E H t raddr p st = (Inr c, st')"
  shows "\<exists>chain k. parse_chain (peer_rawCerts H) = Inr chain \<and>
                   getRemotePubKey E chain = Inr k \<and> MatchesPublicKey E p k \<and>
                   remotePubKey c = Some k"
proof -
  from Dial_Inr[OF assms] obtain host addr pconn lma s rpk where
    q: "quic_DialContext H pconn addr host
             ((tlsConf t)\<lparr> VerifyPeerCertificate := Some (Dial_VerifyPeerCertificate E p) \<rparr>)
             None = (Inr s, rpk)" and
    c: "c = \<lparr> sess = s, transport = t, privKey = transport.privKey t,
                 localPeer = transport.localPeer t, localMultiaddr = lma,
                 remotePubKey = rpk, remotePeerID = p, remoteMultiaddr = raddr \<rparr>"
    by blast
  have "Dial_VerifyPeerCertificate E p None (peer_rawCerts H) = (None, rpk)"
    using quic_DialContext_Inr[OF q, of "Dial_VerifyPeerCertificate E p"] by simp
  from Dial_VerifyPeerCertificate_None[OF this] show ?thesis
    by (auto simp: c)
qed

section \<open>The claims\<close>

text \<open>
  C5, as stated: the validity window of the host certificate is
  \<open>[now - 24h, now + 180d]\<close> for one instant \<open>now\<close>, so it is 181 days long. The two
  bounds come from two readings of the clock; when a second passes between them the
  window is a second longer.
\<close>

theorem host_window_counterexample:
  "validity (fst (keyToCertificate env0 sk_rsa w1)) = Some (1558569600, 1574208001) \<and>
   (1574208001 :: int) - 1558569600 \<noteq> 24 * 3600 + 180 * 24 * 3600"
  by (simp add: keyToCertificate_env0_w1 validity_def host_rsa_def)

text \<open>
  C5, amended: the host certificate that \<^verbatim>\<open>keyToCertificate\<close> returns is self-signed
  by the host key: the signer is the key parsed from the envelope of the host key
  (PKCS1 for RSA, the raw data for Ed25519), and the certificate carries that key's
  public half and is signed with it. It has CA set with valid basic constraints. Its
  serial number is exactly the value that \<^verbatim>\<open>rand.Int\<close> returned for the bound
  \<open>2^62\<close>, hence a value in \<open>[0, 2^62)\<close> whenever \<^verbatim>\<open>rand.Int\<close> keeps its documented
  range. Its validity starts 24 hours before the first reading of the clock and ends
  180 days after the second reading, which is the window \<open>[now - 24h, now + 180d]\<close>
  of 181 days when the two readings agree. It has no DNS names and no other subject
  alternative names.
\<close>

theorem host_certificate:
  assumes "keyToCertificate E sk w = (Inr (key, cert), w')"
  shows "(\<exists>kb pbmes.
            Bytes sk = Inr kb \<and> proto_Unmarshal E kb = Inr pbmes \<and>
            (Type pbmes = RSA \<and>
               (\<exists>n e d. x509_ParsePKCS1PrivateKey E (Data pbmes) = Inr (n, e, d) \<and>
                        key = RsaSigner n e d \<and> PublicKey cert = RsaPublicKey n e) \<or>
             Type pbmes = Ed25519 \<and> key = Ed25519Signer (Data pbmes) \<and>
               PublicKey cert = Ed25519PublicKey (ed25519_Public E (Data pbmes)))) \<and>
         PublicKey cert = signer_Public E key \<and> SignatureKey cert = Some (signer_Public E key) \<and>
         IsCA cert \<and> BasicConstraintsValid cert \<and>
         rand_Int E (2 ^ 62) = Inr (SerialNumber cert) \<and>
         (rand_Int_in_range E (2 ^ 62) \<longrightarrow> 0 \<le> SerialNumber cert \<and> SerialNumber cert < 2 ^ 62) \<and>
         NotBefore cert = clock w (ticks w) - 24 * 3600 \<and>
         NotAfter cert = clock w (Suc (ticks w)) + 180 * 24 * 3600 \<and>
         (clock w (Suc (ticks w)) = clock w (ticks w) \<longrightarrow>
            NotAfter cert - NotBefore cert = 24 * 3600 + 180 * 24 * 3600) \<and>
         DNSNames cert = [] \<and> EmailAddresses cert = [] \<and> IPAddresses cert = [] \<and> URIs cert = []"
proof -
  from keyToCertificate_Inr[OF assms] obtain sn kb pbmes where
    r: "rand_Int E (2 ^ 62) = Inr sn" and b: "Bytes sk = Inr kb" and
    u: "proto_Unmarshal E kb = Inr pbmes" and
    s: "keyToCertificate_switch E pbmes = Inr (signer_Public E key, key)" and
    c: "cert = Certificate_zero\<lparr> SerialNumber := sn,
                    NotBefore := clock w (ticks w) - 24 * Hour,
                    NotAfter := clock w (Suc (ticks w)) + certValidityPeriod,
                    IsCA := True, BasicConstraintsValid := True,
                    PublicKey := signer_Public E key,
                    SignatureKey := Some (signer_Public E key) \<rparr>"
    by blast
  have p: "PublicKey cert = signer_Public E key"
    by (simp add: c)
  have 1: "\<exists>kb pbmes.
            Bytes sk = Inr kb \<and> proto_Unmarshal E kb = Inr pbmes \<and>
            (Type pbmes = RSA \<and>
               (\<exists>n e d. x509_ParsePKCS1PrivateKey E (Data pbmes) = Inr (n, e, d) \<and>
                        key = RsaSigner n e d \<and> PublicKey cert = RsaPublicKey n e) \<or>
             Type pbmes = Ed25519 \<and> key = Ed25519Signer (Data pbmes) \<and>
               PublicKey cert = Ed25519PublicKey (ed25519_Public E (Data pbmes)))"
    using keyToCertificate_switch_key[OF s] b u p by auto
  have 2: "PublicKey cert = signer_Public E key \<and> SignatureKey cert = Some (signer_Public E key) \<and>
         IsCA cert \<and> BasicConstraintsValid cert \<and>
         rand_Int E (2 ^ 62) = Inr (SerialNumber cert) \<and>
         (rand_Int_in_range E (2 ^ 62) \<longrightarrow> 0 \<le> SerialNumber cert \<and> SerialNumber cert < 2 ^ 62)"
    using r by (auto simp: c rand_Int_in_range_def)
  have 3: "NotBefore cert = clock w (ticks w) - 24 * 3600 \<and>
         NotAfter cert = clock w (Suc (ticks w)) + 180 * 24 * 3600 \<and>
         (clock w (Suc (ticks w)) = clock w (ticks w) \<longrightarrow>
            NotAfter cert - NotBefore cert = 24 * 3600 + 180 * 24 * 3600)"
    by (simp add: c Hour_def certValidityPeriod_def)
  have 4: "DNSNames cert = [] \<and> EmailAddresses cert = [] \<and> IPAddresses cert = [] \<and> URIs cert = []"
    by (simp add: c Certificate_zero_def)
  from 1 2 3 4 show ?thesis by blast
qed

theorem host_certificate_witness:
  "keyToCertificate env0 sk_rsa w1 =
     (Inr (RsaSigner 7 65537 1, host_rsa\<lparr> NotAfter := 1574208001 \<rparr>), w1\<lparr>ticks := 2\<rparr>) \<and>
   rand_Int_in_range env0 (2 ^ 62) \<and>
   Bytes sk_rsa = Inr [0, 7] \<and> proto_Unmarshal env0 [0, 7] = Inr \<lparr> Type = RSA, Data = [7] \<rparr> \<and>
   x509_ParsePKCS1PrivateKey env0 [7] = Inr (7, 65537, 1) \<and>
   PublicKey (host_rsa\<lparr> NotAfter := 1574208001 \<rparr>) = RsaPublicKey 7 65537 \<and>
   SignatureKey (host_rsa\<lparr> NotAfter := 1574208001 \<rparr>) = Some (RsaPublicKey 7 65537) \<and>
   IsCA (host_rsa\<lparr> NotAfter := 1574208001 \<rparr>) \<and>
   0 \<le> SerialNumber (host_rsa\<lparr> NotAfter := 1574208001 \<rparr>) \<and>
   SerialNumber (host_rsa\<lparr> NotAfter := 1574208001 \<rparr>) < 2 ^ 62 \<and>
   NotBefore (host_rsa\<lparr> NotAfter := 1574208001 \<rparr>) = 1558656000 - 86400 \<and>
   NotAfter (host_rsa\<lparr> NotAfter := 1574208001 \<rparr>) = 1558656001 + 15552000 \<and>
   DNSNames (host_rsa\<lparr> NotAfter := 1574208001 \<rparr>) = []"
proof -
  have r: "rand_Int_in_range env0 (2 ^ 62)"
    by (simp add: rand_Int_in_range_def env0_def)
  have c: "clock w1 (ticks w1) = 1558656000" "clock w1 (Suc (ticks w1)) = 1558656001"
    by (simp_all add: w1_def)
  have a: "Bytes sk_rsa = Inr [0, 7]" "proto_Unmarshal env0 [0, 7] = Inr \<lparr> Type = RSA, Data = [7] \<rparr>"
    "x509_ParsePKCS1PrivateKey env0 [7] = Inr (7, 65537, 1)"
    by (simp_all add: sk_rsa_def env0_def)
  show ?thesis
    using host_certificate[OF keyToCertificate_env0_w1] r keyToCertificate_env0_w1 c a
    by simp
qed

text \<open>
  C6. Whenever \<^verbatim>\<open>generateConfig\<close> returns a configuration, its server name is the
  placeholder \<open>quic.ipfs\<close>, the built-in verification is switched off, a client
  certificate is required, and its only certificate entry presents the chain
  \<open>[ephemeral, host]\<close> in that order with the ephemeral key as private key, where the
  ephemeral certificate carries the ephemeral public key and is signed by the host
  key. For every supported host key (RSA that parses, or Ed25519) it does return a
  configuration, provided the random source, key generation and signing succeed.
\<close>

theorem generateConfig_config:
  "(generateConfig E sk w = (Inr conf, w') \<longrightarrow>
      ServerName conf = ''quic.ipfs'' \<and> InsecureSkipVerify conf \<and>
      ClientAuth conf = RequireAnyClientCert \<and>
      (\<exists>key host eph ephKey.
          keyToCertificate E sk w = (Inr (key, host), w\<lparr>ticks := Suc (Suc (ticks w))\<rparr>) \<and>
          ecdsa_GenerateKey_on E P256 = Inr ephKey \<and>
          PublicKey eph = ecdsa_Public ephKey \<and>
          SignatureKey eph = Some (PublicKey host) \<and>
          Certificates conf = [\<lparr> Certificate_chain = [Raw eph, Raw host],
                                  PrivateKey = ephKey \<rparr>])) \<and>
   (Bytes sk = Inr kb \<and> proto_Unmarshal E kb = Inr pbmes \<and>
    (Type pbmes = Ed25519 \<or>
     Type pbmes = RSA \<and> (\<exists>k. x509_ParsePKCS1PrivateKey E (Data pbmes) = Inr k)) \<and>
    (\<exists>sn. rand_Int E (2 ^ 62) = Inr sn) \<and> (\<exists>dq. ecdsa_GenerateKey E P256 = Inr dq) \<and>
    (\<forall>c s. sign_error E c s = None)
    \<longrightarrow> (\<exists>conf w'. generateConfig E sk w = (Inr conf, w')))"
proof (intro conjI impI)
  assume g: "generateConfig E sk w = (Inr conf, w')"
  from generateConfig_Inr[OF g] obtain key host eph ephKey where
    k: "keyToCertificate E sk w = (Inr (key, host), w\<lparr>ticks := Suc (Suc (ticks w))\<rparr>)" and
    e: "ecdsa_GenerateKey_on E P256 = Inr ephKey" and
    eph: "eph = Certificate_zero\<lparr> DNSNames := [hostname], SerialNumber := 1,
                   NotBefore := clock w (Suc (Suc (ticks w))) - 24 * Hour,
                   NotAfter := clock w (Suc (Suc (Suc (ticks w)))) + certValidityPeriod,
                   PublicKey := ecdsa_Public ephKey,
                   SignatureKey := Some (signer_Public E key) \<rparr>" and
    c: "conf = \<lparr> ServerName = hostname, InsecureSkipVerify = True,
                    ClientAuth = RequireAnyClientCert,
                    Certificates = [\<lparr> Certificate_chain = [Raw eph, Raw host],
                                      PrivateKey = ephKey \<rparr>],
                    VerifyPeerCertificate = None \<rparr>"
    by blast
  show "ServerName conf = ''quic.ipfs''" "InsecureSkipVerify conf"
    "ClientAuth conf = RequireAnyClientCert"
    by (simp_all add: c hostname_def)
  have "PublicKey host = signer_Public E key"
    using keyToCertificate_Inr[OF k] by auto
  then show "\<exists>key host eph ephKey.
          keyToCertificate E sk w = (Inr (key, host), w\<lparr>ticks := Suc (Suc (ticks w))\<rparr>) \<and>
          ecdsa_GenerateKey_on E P256 = Inr ephKey \<and>
          PublicKey eph = ecdsa_Public ephKey \<and>
          SignatureKey eph = Some (PublicKey host) \<and>
          Certificates conf = [\<lparr> Certificate_chain = [Raw eph, Raw host],
                                  PrivateKey = ephKey \<rparr>]"
    using k e eph c by (intro exI[of _ key] exI[of _ host] exI[of _ eph] exI[of _ ephKey]) simp
next
  assume a: "Bytes sk = Inr kb \<and> proto_Unmarshal E kb = Inr pbmes \<and>
    (Type pbmes = Ed25519 \<or>
     Type pbmes = RSA \<and> (\<exists>k. x509_ParsePKCS1PrivateKey E (Data pbmes) = Inr k)) \<and>
    (\<exists>sn. rand_Int E (2 ^ 62) = Inr sn) \<and> (\<exists>dq. ecdsa_GenerateKey E P256 = Inr dq) \<and>
    (\<forall>c s. sign_error E c s = None)"
  then have "\<exists>pub key. keyToCertificate_switch E pbmes = Inr (pub, key)"
    by (auto simp: keyToCertificate_switch_def Let_def)
  with a show "\<exists>conf w'. generateConfig E sk w = (Inr conf, w')"
    by (metis generateConfig_succeeds)
qed

theorem generateConfig_config_witness:
  "generateConfig env0 sk_rsa w0 = (Inr (tlsConf t0), w0\<lparr>ticks := 4\<rparr>) \<and>
   ServerName (tlsConf t0) = ''quic.ipfs'' \<and> InsecureSkipVerify (tlsConf t0) \<and>
   ClientAuth (tlsConf t0) = RequireAnyClientCert \<and>
   Certificates (tlsConf t0) =
     [\<lparr> Certificate_chain = [Raw leaf_rsa, Raw host_rsa],
        PrivateKey = \<lparr> Curve = P256, Q = 9, D = 5 \<rparr> \<rparr>] \<and>
   Bytes sk_rsa = Inr [0, 7] \<and> proto_Unmarshal env0 [0, 7] = Inr \<lparr> Type = RSA, Data = [7] \<rparr> \<and>
   x509_ParsePKCS1PrivateKey env0 [7] = Inr (7, 65537, 1) \<and>
   rand_Int env0 (2 ^ 62) = Inr 123456789 \<and> ecdsa_GenerateKey env0 P256 = Inr (5, 9) \<and>
   (\<forall>c s. sign_error env0 c s = None) \<and>
   (\<exists>conf w'. generateConfig env0 sk_rsa w0 = (Inr conf, w'))"
proof -
  have a: "Bytes sk_rsa = Inr [0, 7]" "proto_Unmarshal env0 [0, 7] = Inr \<lparr> Type = RSA, Data = [7] \<rparr>"
    "x509_ParsePKCS1PrivateKey env0 [7] = Inr (7, 65537, 1)"
    "rand_Int env0 (2 ^ 62) = Inr 123456789" "ecdsa_GenerateKey env0 P256 = Inr (5, 9)"
    "\<forall>c s. sign_error env0 c s = None"
    by (simp_all add: sk_rsa_def env0_def)
  have b: "Certificates (tlsConf t0) =
     [\<lparr> Certificate_chain = [Raw leaf_rsa, Raw host_rsa],
        PrivateKey = \<lparr> Curve = P256, Q = 9, D = 5 \<rparr> \<rparr>]"
    by (simp add: t0_def)
  show ?thesis
    using generateConfig_config[of env0 sk_rsa w0 "tlsConf t0" "w0\<lparr>ticks := 4\<rparr>" "[0, 7]"
            "\<lparr> Type = RSA, Data = [7] \<rparr>"]
      generateConfig_env0 a b
    by simp
qed

text \<open>
  C7. For a host key whose envelope names a kind other than RSA and Ed25519 (ECDSA,
  Secp256k1), \<^verbatim>\<open>keyToCertificate\<close> returns an error, and so do \<^verbatim>\<open>generateConfig\<close>
  and \<^verbatim>\<open>NewTransport\<close>: no transport, and with it no connection manager and no
  socket, comes into being. The error is the unsupported-key error as soon as the
  library calls made before the switch (\<^verbatim>\<open>peer.IDFromPrivateKey\<close>, \<^verbatim>\<open>rand.Int\<close>)
  succeed.
\<close>

theorem unsupported_host_key:
  assumes "Bytes sk = Inr kb" and "proto_Unmarshal E kb = Inr pbmes"
    and "Type pbmes \<noteq> RSA" and "Type pbmes \<noteq> Ed25519"
  shows "(\<exists>err w'. keyToCertificate E sk w = (Inl err, w')) \<and>
         (\<exists>err w'. generateConfig E sk w = (Inl err, w')) \<and>
         (\<exists>err w'. NewTransport E sk w = (Inl err, w')) \<and>
         (\<forall>sn. rand_Int E (2 ^ 62) = Inr sn \<longrightarrow>
            fst (keyToCertificate E sk w) = Inl UnsupportedKeyTypeForTLS \<and>
            fst (generateConfig E sk w) = Inl UnsupportedKeyTypeForTLS \<and>
            (\<forall>lp. IDFromPrivateKey E sk = Inr lp \<longrightarrow>
               fst (NewTransport E sk w) = Inl UnsupportedKeyTypeForTLS))"
proof -
  note k = keyToCertificate_unsupported[OF assms, of w]
  note g = generateConfig_unsupported[OF assms, of w]
  have 1: "\<exists>err w'. keyToCertificate E sk w = (Inl err, w')"
    by (cases "rand_Int E (2 ^ 62)") (simp_all add: k)
  have 2: "\<exists>err w'. generateConfig E sk w = (Inl err, w')"
    by (cases "rand_Int E (2 ^ 62)") (simp_all add: g)
  have 3: "\<exists>err w'. NewTransport E sk w = (Inl err, w')"
    using 2 by (cases "IDFromPrivateKey E sk") (auto simp: NewTransport_def)
  have 4: "fst (keyToCertificate E sk w) = Inl UnsupportedKeyTypeForTLS \<and>
           fst (generateConfig E sk w) = Inl UnsupportedKeyTypeForTLS \<and>
           (\<forall>lp. IDFromPrivateKey E sk = Inr lp \<longrightarrow>
               fst (NewTransport E sk w) = Inl UnsupportedKeyTypeForTLS)"
    if "rand_Int E (2 ^ 62) = Inr sn" for sn
    using that by (simp add: k g NewTransport_def)
  from 1 2 3 4 show ?thesis by blast
qed

theorem unsupported_host_key_witness:
  "Bytes sk_ecdsa = Inr [3, 7] \<and>
   proto_Unmarshal env0 [3, 7] = Inr \<lparr> Type = ECDSA, Data = [7] \<rparr> \<and>
   rand_Int env0 (2 ^ 62) = Inr 123456789 \<and>
   IDFromPrivateKey env0 sk_ecdsa = Inr ''QmOther'' \<and>
   fst (keyToCertificate env0 sk_ecdsa w0) = Inl UnsupportedKeyTypeForTLS \<and>
   fst (generateConfig env0 sk_ecdsa w0) = Inl UnsupportedKeyTypeForTLS \<and>
   fst (NewTransport env0 sk_ecdsa w0) = Inl UnsupportedKeyTypeForTLS"
proof -
  have a: "Bytes sk_ecdsa = Inr [3, 7]"
    by (simp add: sk_ecdsa_def)
  have b: "proto_Unmarshal env0 [3, 7] = Inr \<lparr> Type = ECDSA, Data = [7] \<rparr>"
    by (simp add: env0_def)
  have c: "rand_Int env0 (2 ^ 62) = Inr 123456789"
    by (simp add: env0_def)
  have d: "IDFromPrivateKey env0 sk_ecdsa = Inr ''QmOther''"
    by (simp add: env0_def sk_ecdsa_def)
  show ?thesis
    using unsupported_host_key[OF a b, of w0] a b c d by simp
qed

text \<open>
  C2. \<^verbatim>\<open>getRemotePubKey\<close> returns the chain-length error for every chain whose length
  is not 2; for a chain of two it returns the verification error whenever the first
  certificate does not verify under the pool that holds only the second; and it
  returns a public key only for a chain of two whose first certificate verifies under
  that pool.
\<close>

theorem getRemotePubKey_chain:
  "(length chain \<noteq> 2 \<longrightarrow> getRemotePubKey E chain = Inl ExpectedTwoCertificates) \<and>
   (\<forall>err. length chain = 2 \<and> x509_Verify E (chain ! 0) [chain ! 1] = Some err
       \<longrightarrow> getRemotePubKey E chain = Inl err) \<and>
   (\<forall>k. getRemotePubKey E chain = Inr k
       \<longrightarrow> length chain = 2 \<and> x509_Verify E (chain ! 0) [chain ! 1] = None)"
  using getRemotePubKey_Inr[of E chain]
  by (auto simp: getRemotePubKey_def)

theorem getRemotePubKey_chain_witness:
  "getRemotePubKey env0 [host_rsa] = Inl ExpectedTwoCertificates \<and>
   getRemotePubKey env0 [leaf_rsa, host_rsa, host_rsa] = Inl ExpectedTwoCertificates \<and>
   x509_Verify env0 leaf_stray [host_rsa] =
     Some (LibError ''x509: certificate signed by unknown authority'') \<and>
   getRemotePubKey env0 [leaf_stray, host_rsa] =
     Inl (LibError ''x509: certificate signed by unknown authority'') \<and>
   getRemotePubKey env0 [leaf_rsa, host_rsa] = Inr (PubKey RSA [7]) \<and>
   x509_Verify env0 leaf_rsa [host_rsa] = None"
proof -
  have v: "x509_Verify env0 leaf_stray [host_rsa] =
     Some (LibError ''x509: certificate signed by unknown authority'')"
    by (simp add: env0_def leaf_stray_def leaf_rsa_def host_rsa_def Certificate_zero_def)
  show ?thesis
    using getRemotePubKey_chain[of "[host_rsa]" env0]
      getRemotePubKey_chain[of "[leaf_rsa, host_rsa, host_rsa]" env0]
      getRemotePubKey_chain[of "[leaf_stray, host_rsa]" env0]
      getRemotePubKey_chain[of "[leaf_rsa, host_rsa]" env0]
      v getRemotePubKey_env0
    by simp
qed

text \<open>
  C3, as stated: some chain whose host certificate carries an ECDSA public key is
  accepted by \<^verbatim>\<open>getRemotePubKey\<close>. There is none: the type switch knows RSA and
  Ed25519 only.
\<close>

theorem ecdsa_chain_counterexample:
  "\<not> (\<exists>E chain c n k.
         PublicKey (chain ! 1) = EcdsaPublicKey c n \<and> getRemotePubKey E chain = Inr k)"
  by (auto dest: getRemotePubKey_Inr)

text \<open>
  C3, amended: ECDSA is refused on both paths. \<^verbatim>\<open>getRemotePubKey\<close> returns an error
  for every chain whose host certificate carries an ECDSA public key, the
  unknown-key-type error when the chain has two certificates and verifies; and
  \<^verbatim>\<open>generateConfig\<close> returns an error for every host key of kind ECDSA.
\<close>

theorem ecdsa_refused_both_ways:
  "(PublicKey (chain ! 1) = EcdsaPublicKey c n \<longrightarrow>
      (\<exists>err. getRemotePubKey E chain = Inl err) \<and>
      (length chain = 2 \<and> x509_Verify E (chain ! 0) [chain ! 1] = None
         \<longrightarrow> getRemotePubKey E chain = Inl UnknownKeyType)) \<and>
   (Bytes sk = Inr kb \<and> proto_Unmarshal E kb = Inr pbmes \<and> Type pbmes = ECDSA \<longrightarrow>
      (\<exists>err w'. generateConfig E sk w = (Inl err, w')))"
proof (intro conjI impI)
  assume p: "PublicKey (chain ! 1) = EcdsaPublicKey c n"
  show "\<exists>err. getRemotePubKey E chain = Inl err"
    using p getRemotePubKey_Inr[of E chain] by (cases "getRemotePubKey E chain") auto
  assume "length chain = 2 \<and> x509_Verify E (chain ! 0) [chain ! 1] = None"
  with p show "getRemotePubKey E chain = Inl UnknownKeyType"
    by (simp add: getRemotePubKey_def)
next
  assume a: "Bytes sk = Inr kb \<and> proto_Unmarshal E kb = Inr pbmes \<and> Type pbmes = ECDSA"
  then have "generateConfig E sk w =
     (case rand_Int E (2 ^ 62) of
        Inl err \<Rightarrow> (Inl err, w)
      | Inr sn \<Rightarrow> (Inl UnsupportedKeyTypeForTLS, w\<lparr>ticks := Suc (Suc (ticks w))\<rparr>))"
    by (intro generateConfig_unsupported[of sk kb E pbmes]) simp_all
  then show "\<exists>err w'. generateConfig E sk w = (Inl err, w')"
    by (cases "rand_Int E (2 ^ 62)") simp_all
qed

theorem ecdsa_refused_both_ways_witness:
  "PublicKey ([leaf_ecdsa, host_ecdsa] ! 1) = EcdsaPublicKey P256 4 \<and>
   length [leaf_ecdsa, host_ecdsa] = 2 \<and>
   x509_Verify env0 leaf_ecdsa [host_ecdsa] = None \<and>
   getRemotePubKey env0 [leaf_ecdsa, host_ecdsa] = Inl UnknownKeyType \<and>
   Bytes sk_ecdsa = Inr [3, 7] \<and>
   proto_Unmarshal env0 [3, 7] = Inr \<lparr> Type = ECDSA, Data = [7] \<rparr> \<and>
   (\<exists>err w'. generateConfig env0 sk_ecdsa w0 = (Inl err, w'))"
proof -
  have a: "PublicKey ([leaf_ecdsa, host_ecdsa] ! 1) = EcdsaPublicKey P256 4"
    by (simp add: host_ecdsa_def)
  have b: "x509_Verify env0 leaf_ecdsa [host_ecdsa] = None"
    by (simp add: env0_def leaf_ecdsa_def host_ecdsa_def)
  have c: "Bytes sk_ecdsa = Inr [3, 7]"
    "proto_Unmarshal env0 [3, 7] = Inr \<lparr> Type = ECDSA, Data = [7] \<rparr>"
    by (simp_all add: sk_ecdsa_def env0_def)
  show ?thesis
    using ecdsa_refused_both_ways[of "[leaf_ecdsa, host_ecdsa]" P256 4 env0 sk_ecdsa "[3, 7]"
            "\<lparr> Type = ECDSA, Data = [7] \<rparr>" w0] a b c
    by simp
qed




text \<open>
  C1. When the peer's certificates parse and \<^verbatim>\<open>getRemotePubKey\<close> extracts a key that
  does not match the expected peer \<open>p\<close>, the callback of the dial returns the error
  "peer IDs don't match", and a dial whose handshake presents those certificates
  returns no connection; once the handshake is reached it returns that very error.
  A dial returns a connection only if the certificates parse, \<^verbatim>\<open>getRemotePubKey\<close>
  succeeds on them and the extracted key matches \<open>p\<close>.
\<close>

theorem Dial_identity_binding:
  "(parse_chain rawCerts = Inr chain \<and> getRemotePubKey E chain = Inr k \<and>
    \<not> MatchesPublicKey E p k \<longrightarrow>
      Dial_VerifyPeerCertificate E p v rawCerts = (Some PeerIDsDontMatch, Some k) \<and>
      (peer_rawCerts H = rawCerts \<longrightarrow>
         (\<exists>err st'. Dial E H t raddr p st = (Inl err, st')) \<and>
         (\<forall>network host udpAddr addr pconn st1 lma.
            manet_DialArgs E raddr = Inr (network, host) \<and>
            net_ResolveUDPAddr E network host = Inr udpAddr \<and>
            fromQuicMultiaddr E raddr = Inr addr \<and>
            connManager_Dial E network udpAddr st = (Inr pconn, st1) \<and>
            toQuicMultiaddr E (reuseConn_LocalAddr st1 pconn) = Inr lma \<and>
            early_error H = None \<longrightarrow>
              Dial E H t raddr p st = (Inl PeerIDsDontMatch, DecreaseCount pconn st1)))) \<and>
   (Dial E H t raddr p st = (Inr c, st') \<longrightarrow>
      (\<exists>chain k. parse_chain (peer_rawCerts H) = Inr chain \<and>
                 getRemotePubKey E chain = Inr k \<and> MatchesPublicKey E p k))"
proof (intro conjI impI)
  assume a: "parse_chain rawCerts = Inr chain \<and> getRemotePubKey E chain = Inr k \<and>
    \<not> MatchesPublicKey E p k"
  then show v: "Dial_VerifyPeerCertificate E p v rawCerts = (Some PeerIDsDontMatch, Some k)"
    by (simp add: Dial_VerifyPeerCertificate_def)
  assume h: "peer_rawCerts H = rawCerts"
  show "\<exists>err st'. Dial E H t raddr p st = (Inl err, st')"
  proof (cases "Dial E H t raddr p st")
    case (Pair res st')
    show ?thesis
    proof (cases res)
      case (Inl err)
      with Pair show ?thesis by simp
    next
      case (Inr c)
      with Pair have "Dial E H t raddr p st = (Inr c, st')" by simp
      from Dial_verified[OF this] a h show ?thesis by auto
    qed
  qed
  have n: "Dial_VerifyPeerCertificate E p None rawCerts = (Some PeerIDsDontMatch, Some k)"
    using a by (simp add: Dial_VerifyPeerCertificate_def)
  show "\<forall>network host udpAddr addr pconn st1 lma.
            manet_DialArgs E raddr = Inr (network, host) \<and>
            net_ResolveUDPAddr E network host = Inr udpAddr \<and>
            fromQuicMultiaddr E raddr = Inr addr \<and>
            connManager_Dial E network udpAddr st = (Inr pconn, st1) \<and>
            toQuicMultiaddr E (reuseConn_LocalAddr st1 pconn) = Inr lma \<and>
            early_error H = None \<longrightarrow>
              Dial E H t raddr p st = (Inl PeerIDsDontMatch, DecreaseCount pconn st1)"
    using n h by (auto simp: Dial_def quic_DialContext_def)
next
  assume "Dial E H t raddr p st = (Inr c, st')"
  from Dial_verified[OF this]
  show "\<exists>chain k. parse_chain (peer_rawCerts H) = Inr chain \<and>
                 getRemotePubKey E chain = Inr k \<and> MatchesPublicKey E p k"
    by blast
qed


theorem Dial_identity_binding_witness:
  "parse_chain [Raw leaf_rsa, Raw host_rsa] = Inr [leaf_rsa, host_rsa] \<and>
   getRemotePubKey env0 [leaf_rsa, host_rsa] = Inr (PubKey RSA [7]) \<and>
   \<not> MatchesPublicKey env0 ''QmEd'' (PubKey RSA [7]) \<and>
   Dial_VerifyPeerCertificate env0 ''QmEd'' None [Raw leaf_rsa, Raw host_rsa] =
     (Some PeerIDsDontMatch, Some (PubKey RSA [7])) \<and>
   Dial env0 H_ok t0 raddr0 ''QmEd'' newStore = (Inl PeerIDsDontMatch, store_released) \<and>
   Dial env0 H_ok t0 raddr0 ''QmRsa'' newStore = (Inr conn0, store_held) \<and>
   MatchesPublicKey env0 ''QmRsa'' (PubKey RSA [7])"
proof -
  have p: "parse_chain [Raw leaf_rsa, Raw host_rsa] = Inr [leaf_rsa, host_rsa]"
    by (simp add: Raw_def)
  have m: "\<not> MatchesPublicKey env0 ''QmEd'' (PubKey RSA [7])"
    "MatchesPublicKey env0 ''QmRsa'' (PubKey RSA [7])"
    by (simp_all add: env0_def)
  have h: "peer_rawCerts H_ok = [Raw leaf_rsa, Raw host_rsa]" "early_error H_ok = None"
    by (simp_all add: H_ok_def)
  have a: "manet_DialArgs env0 raddr0 = Inr (''udp4'', ''127.0.0.1:4001'')"
    "net_ResolveUDPAddr env0 ''udp4'' ''127.0.0.1:4001'' = Inr \<lparr> IP = [127, 0, 0, 1], Port = 4001 \<rparr>"
    "fromQuicMultiaddr env0 raddr0 = Inr \<lparr> IP = [127, 0, 0, 1], Port = 4001 \<rparr>"
    "toQuicMultiaddr env0 (reuseConn_LocalAddr store_held 0) = Inr ''/ip4/0.0.0.0/udp/50000/quic''"
    by (simp_all add: env0_def raddr0_def)
  note b = Dial_identity_binding[where rawCerts = "[Raw leaf_rsa, Raw host_rsa]"
      and chain = "[leaf_rsa, host_rsa]" and E = env0 and k = "PubKey RSA [7]"
      and p = "''QmEd''" and v = None and H = H_ok and t = t0 and raddr = raddr0
      and st = newStore]
  have d: "Dial env0 H_ok t0 raddr0 ''QmEd'' newStore =
             (Inl PeerIDsDontMatch, DecreaseCount 0 store_held)"
    using b p m h a connManager_Dial_env0 getRemotePubKey_env0 by blast
  show ?thesis
    using b d p m getRemotePubKey_env0 Dial_env0_ok
    by (simp add: DecreaseCount_store_held)
qed

text \<open>
  C8. \<^verbatim>\<open>getReuse\<close> maps \<open>udp4\<close> and \<open>udp6\<close> to the registry of their family, which is
  where \<^verbatim>\<open>Listen\<close> and \<^verbatim>\<open>Dial\<close> of the manager go, and returns the invalid-network
  error for every other network string; \<^verbatim>\<open>Listen\<close> and \<^verbatim>\<open>Dial\<close> then fail with
  that error and leave the store as it was.
\<close>

theorem getReuse_networks:
  "getReuse ''udp4'' = Inr ReuseUDP4 \<and> getReuse ''udp6'' = Inr ReuseUDP6 \<and>
   deref st ReuseUDP4 = reuseUDP4 (manager st) \<and> deref st ReuseUDP6 = reuseUDP6 (manager st) \<and>
   connManager_Listen E ''udp4'' laddr st = reuse_Listen E ReuseUDP4 ''udp4'' laddr st \<and>
   connManager_Listen E ''udp6'' laddr st = reuse_Listen E ReuseUDP6 ''udp6'' laddr st \<and>
   connManager_Dial E ''udp4'' raddr st = reuse_Dial E ReuseUDP4 ''udp4'' raddr st \<and>
   connManager_Dial E ''udp6'' raddr st = reuse_Dial E ReuseUDP6 ''udp6'' raddr st \<and>
   (network \<noteq> ''udp4'' \<and> network \<noteq> ''udp6'' \<longrightarrow>
      getReuse network = Inl InvalidNetwork \<and>
      connManager_Listen E network laddr st = (Inl InvalidNetwork, st) \<and>
      connManager_Dial E network raddr st = (Inl InvalidNetwork, st))"
  by (simp add: getReuse_def connManager_Listen_def connManager_Dial_def)

theorem getReuse_networks_witness:
  "''udp'' \<noteq> ''udp4'' \<and> ''udp'' \<noteq> ''udp6'' \<and>
   getReuse ''udp'' = Inl InvalidNetwork \<and>
   connManager_Listen env0 ''udp'' \<lparr> IP = [0, 0, 0, 0], Port = 0 \<rparr> newStore =
     (Inl InvalidNetwork, newStore) \<and>
   connManager_Dial env0 ''udp'' \<lparr> IP = [127, 0, 0, 1], Port = 4001 \<rparr> newStore =
     (Inl InvalidNetwork, newStore) \<and>
   connManager_Dial env0 ''udp4'' \<lparr> IP = [127, 0, 0, 1], Port = 4001 \<rparr> newStore =
     (Inr 0, store_held)"
  using getReuse_networks[of newStore env0 "\<lparr> IP = [0, 0, 0, 0], Port = 0 \<rparr>"
          "\<lparr> IP = [127, 0, 0, 1], Port = 4001 \<rparr>" "''udp''"]
    connManager_Dial_env0[of "\<lparr> IP = [127, 0, 0, 1], Port = 4001 \<rparr>"]
  by simp

text \<open>
  C9. Once \<^verbatim>\<open>connManager.Dial\<close> has handed out the connection, a dial that returns
  an error, which is either the address conversion's or the handshake's, leaves the
  store exactly one \<^verbatim>\<open>DecreaseCount\<close> of that connection away from the store in
  which the reference was taken: the count of the connection is one less, and the
  count of every other connection is unchanged.
\<close>

theorem Dial_failure_releases:
  assumes "wf_store st"
    and "manet_DialArgs E raddr = Inr (network, host)"
    and "net_ResolveUDPAddr E network host = Inr udpAddr"
    and "fromQuicMultiaddr E raddr = Inr addr"
    and "connManager_Dial E network udpAddr st = (Inr pconn, st1)"
    and "Dial E H t raddr p st = (Inl err, st')"
  shows "st' = DecreaseCount pconn st1 \<and>
         GetCount st' pconn = GetCount st1 pconn - 1 \<and>
         (\<forall>r. r \<noteq> pconn \<longrightarrow> GetCount st' r = GetCount st1 r) \<and>
         (toQuicMultiaddr E (reuseConn_LocalAddr st1 pconn) = Inl err \<or>
          (\<exists>lma v. toQuicMultiaddr E (reuseConn_LocalAddr st1 pconn) = Inr lma \<and>
             quic_DialContext H pconn addr host
               ((tlsConf t)\<lparr> VerifyPeerCertificate := Some (Dial_VerifyPeerCertificate E p) \<rparr>)
               None = (Inl err, v)))"
proof -
  have s: "st' = DecreaseCount pconn st1"
    using assms(2-6) by (rule Dial_Inl_after_acquire)
  have c: "conns st1 pconn \<noteq> None"
    using assms(1,5) by (rule connManager_Dial_ref)
  have w: "toQuicMultiaddr E (reuseConn_LocalAddr st1 pconn) = Inl err \<or>
          (\<exists>lma v. toQuicMultiaddr E (reuseConn_LocalAddr st1 pconn) = Inr lma \<and>
             quic_DialContext H pconn addr host
               ((tlsConf t)\<lparr> VerifyPeerCertificate := Some (Dial_VerifyPeerCertificate E p) \<rparr>)
               None = (Inl err, v))"
    using assms(2-6) by (auto simp: Dial_def Let_def split: sum.splits prod.splits)
  show ?thesis
    using s c w by (simp add: DecreaseCount_GetCount DecreaseCount_GetCount_other)
qed

theorem Dial_failure_releases_witness:
  "wf_store newStore \<and>
   manet_DialArgs env0 raddr0 = Inr (''udp4'', ''127.0.0.1:4001'') \<and>
   net_ResolveUDPAddr env0 ''udp4'' ''127.0.0.1:4001'' = Inr \<lparr> IP = [127, 0, 0, 1], Port = 4001 \<rparr> \<and>
   fromQuicMultiaddr env0 raddr0 = Inr \<lparr> IP = [127, 0, 0, 1], Port = 4001 \<rparr> \<and>
   connManager_Dial env0 ''udp4'' \<lparr> IP = [127, 0, 0, 1], Port = 4001 \<rparr> newStore =
     (Inr 0, store_held) \<and>
   Dial env0 H_timeout t0 raddr0 ''QmRsa'' newStore =
     (Inl (LibError ''context deadline exceeded''), store_released) \<and>
   store_released = DecreaseCount 0 store_held \<and>
   GetCount store_held 0 = 1 \<and> GetCount store_released 0 = 0"
proof -
  have a: "manet_DialArgs env0 raddr0 = Inr (''udp4'', ''127.0.0.1:4001'')"
    "net_ResolveUDPAddr env0 ''udp4'' ''127.0.0.1:4001'' = Inr \<lparr> IP = [127, 0, 0, 1], Port = 4001 \<rparr>"
    "fromQuicMultiaddr env0 raddr0 = Inr \<lparr> IP = [127, 0, 0, 1], Port = 4001 \<rparr>"
    by (simp_all add: env0_def raddr0_def)
  have g: "GetCount store_held 0 = 1" "GetCount store_released 0 = 0"
    by (simp_all add: GetCount_def store_held_def store_released_def)
  show ?thesis
    using Dial_failure_releases[OF wf_newStore a connManager_Dial_env0 Dial_env0_timeout]
      wf_newStore a connManager_Dial_env0 Dial_env0_timeout g
    by simp
qed

text \<open>
  C10. The connection a successful dial returns records the expected peer \<open>p\<close> as
  remote peer, the key that \<^verbatim>\<open>getRemotePubKey\<close> extracted from the certificates of
  the handshake as remote public key, and the transport's own peer and private key as
  local identity.
\<close>

theorem Dial_connection_identity:
  assumes "Dial E H t raddr p st = (Inr c, st')"
  shows "remotePeerID c = p \<and>
         (\<exists>chain k. parse_chain (peer_rawCerts H) = Inr chain \<and>
                    getRemotePubKey E chain = Inr k \<and> remotePubKey c = Some k) \<and>
         conn.localPeer c = transport.localPeer t \<and>
         conn.privKey c = transport.privKey t \<and>
         transport c = t \<and> remoteMultiaddr c = raddr"
proof -
  from Dial_Inr[OF assms] have "remotePeerID c = p \<and>
         conn.localPeer c = transport.localPeer t \<and>
         conn.privKey c = transport.privKey t \<and>
         transport c = t \<and> remoteMultiaddr c = raddr"
    by auto
  moreover from Dial_verified[OF assms] have
    "\<exists>chain k. parse_chain (peer_rawCerts H) = Inr chain \<and>
                    getRemotePubKey E chain = Inr k \<and> remotePubKey c = Some k"
    by blast
  ultimately show ?thesis by blast
qed

theorem Dial_connection_identity_witness:
  "Dial env0 H_ok t0 raddr0 ''QmRsa'' newStore = (Inr conn0, store_held) \<and>
   remotePeerID conn0 = ''QmRsa'' \<and>
   parse_chain (peer_rawCerts H_ok) = Inr [leaf_rsa, host_rsa] \<and>
   getRemotePubKey env0 [leaf_rsa, host_rsa] = Inr (PubKey RSA [7]) \<and>
   remotePubKey conn0 = Some (PubKey RSA [7]) \<and>
   conn.localPeer conn0 = transport.localPeer t0 \<and>
   conn.privKey conn0 = transport.privKey t0"
proof -
  have p: "parse_chain (peer_rawCerts H_ok) = Inr [leaf_rsa, host_rsa]"
    by (simp add: H_ok_def Raw_def)
  show ?thesis
    using Dial_connection_identity[OF Dial_env0_ok] Dial_env0_ok p getRemotePubKey_env0
    by (simp add: conn0_def)
qed

end
